theory Spec2Isabelle
  imports Main
begin

section \<open>The v2 user/password identity double (testservices/identityservice/userpass.go)\<close>

text \<open>
  The handler is embedded with explicit state passing: a method with receiver
  \<^verbatim>\<open>u *UserPass\<close> takes the store and returns it, a method writing to the
  \<^verbatim>\<open>http.ResponseWriter\<close> takes the writer and returns it. The functions of the Go
  standard library that the handler calls and whose failure it tests
  (\<^verbatim>\<open>json.Marshal\<close>, \<^verbatim>\<open>json.Unmarshal\<close>, \<^verbatim>\<open>http.StatusText\<close>) are a
  parameter of the handler, the record \<open>stdlib\<close>; section \<open>encoding/json\<close> below
  defines the instance \<open>golib\<close> that the program runs with.
\<close>

subsection \<open>Wire types (lines 12-72)\<close>

record ErrorResponse =
  Message :: string
  Code :: int
  Title :: string

record ErrorWrapper =
  Error :: ErrorResponse

record PasswordCredentials =
  Username :: string
  Password :: string

record Auth =
  PasswordCredentials :: PasswordCredentials
  TenantName :: string

record UserPassRequest =
  Auth :: Auth

text \<open>A Go slice is \<open>None\<close> when nil (encoded as \<^verbatim>\<open>null\<close>) and \<open>Some xs\<close> otherwise.\<close>

type_synonym 'a slice = "'a list option"

record Endpoint =
  AdminURL :: string
  InternalURL :: string
  PublicURL :: string
  Region :: string

record Service =
  Name :: string
  Type :: string
  Endpoints :: "Endpoint slice"

record Tenant =
  Id' :: string
  Name :: string

record TokenResponse =
  Expires :: string
  Id' :: string
  Tenant :: Tenant

record RoleResponse =
  Id' :: string
  Name :: string
  TenantId :: string

record UserResponse =
  Id' :: string
  Name :: string
  Roles :: "RoleResponse slice"

record Access =
  ServiceCatalog :: "Service slice"
  Token :: TokenResponse
  User :: UserResponse

record AccessResponse =
  Access :: Access

text \<open>The zero values that \<^verbatim>\<open>var req UserPassRequest\<close> and \<^verbatim>\<open>AccessResponse{}\<close> denote.\<close>

definition zero_UserPassRequest :: UserPassRequest where
  "zero_UserPassRequest =
     \<lparr>Auth = \<lparr>PasswordCredentials = \<lparr>Username = [], Password = []\<rparr>, TenantName = []\<rparr>\<rparr>"

definition zero_Endpoint :: Endpoint where
  "zero_Endpoint = \<lparr>AdminURL = [], InternalURL = [], PublicURL = [], Region = []\<rparr>"

definition zero_Service :: Service where
  "zero_Service = \<lparr>Service.Name = [], Type = [], Endpoints = None\<rparr>"

definition zero_RoleResponse :: RoleResponse where
  "zero_RoleResponse = \<lparr>RoleResponse.Id' = [], RoleResponse.Name = [], TenantId = []\<rparr>"

definition zero_AccessResponse :: AccessResponse where
  "zero_AccessResponse =
     \<lparr>Access = \<lparr>ServiceCatalog = None,
        Token = \<lparr>Expires = [], TokenResponse.Id' = [], Tenant = \<lparr>Tenant.Id' = [], Tenant.Name = []\<rparr>\<rparr>,
        User = \<lparr>UserResponse.Id' = [], UserResponse.Name = [], Roles = None\<rparr>\<rparr>\<rparr>"

subsection \<open>The fixture and the messages (lines 75-135, 152-158, 180-186)\<close>

definition exampleResponse :: string where
  \<open>exampleResponse =
    ''{\<newline>'' @
    ''    "access": {\<newline>'' @
    ''        "serviceCatalog": [\<newline>'' @
    ''            {\<newline>'' @
    ''                "endpoints": [\<newline>'' @
    ''                    {\<newline>'' @
    ''                        "adminURL": "https://nova-api.trystack.org:9774/v1.1/1", \<newline>'' @
    ''                        "internalURL": "https://nova-api.trystack.org:9774/v1.1/1", \<newline>'' @
    ''                        "publicURL": "https://nova-api.trystack.org:9774/v1.1/1", \<newline>'' @
    ''                        "region": "RegionOne"\<newline>'' @
    ''                    }\<newline>'' @
    ''                ], \<newline>'' @
    ''                "name": "nova", \<newline>'' @
    ''                "type": "compute"\<newline>'' @
    ''            }, \<newline>'' @
    ''            {\<newline>'' @
    ''                "endpoints": [\<newline>'' @
    ''                    {\<newline>'' @
    ''                        "adminURL": "https://GLANCE_API_IS_NOT_DISCLOSED/v1.1/1", \<newline>'' @
    ''                        "internalURL": "https://GLANCE_API_IS_NOT_DISCLOSED/v1.1/1", \<newline>'' @
    ''                        "publicURL": "https://GLANCE_API_IS_NOT_DISCLOSED/v1.1/1", \<newline>'' @
    ''                        "region": "RegionOne"\<newline>'' @
    ''                    }\<newline>'' @
    ''                ], \<newline>'' @
    ''                "name": "glance", \<newline>'' @
    ''                "type": "image"\<newline>'' @
    ''            }, \<newline>'' @
    ''            {\<newline>'' @
    ''                "endpoints": [\<newline>'' @
    ''                    {\<newline>'' @
    ''                        "adminURL": "https://nova-api.trystack.org:5443/v2.0", \<newline>'' @
    ''                        "internalURL": "https://keystone.trystack.org:5000/v2.0", \<newline>'' @
    ''                        "publicURL": "https://keystone.trystack.org:5000/v2.0", \<newline>'' @
    ''                        "region": "RegionOne"\<newline>'' @
    ''                    }\<newline>'' @
    ''                ], \<newline>'' @
    ''                "name": "keystone", \<newline>'' @
    ''                "type": "identity"\<newline>'' @
    ''            }\<newline>'' @
    ''        ], \<newline>'' @
    ''        "token": {\<newline>'' @
    ''            "expires": "2012-02-15T19:32:21", \<newline>'' @
    ''            "id": "5df9d45d-d198-4222-9b4c-7a280aa35666", \<newline>'' @
    ''            "tenant": {\<newline>'' @
    ''                "id": "1", \<newline>'' @
    ''                "name": "admin"\<newline>'' @
    ''            }\<newline>'' @
    ''        }, \<newline>'' @
    ''        "user": {\<newline>'' @
    ''            "id": "14", \<newline>'' @
    ''            "name": "annegentle", \<newline>'' @
    ''            "roles": [\<newline>'' @
    ''                {\<newline>'' @
    ''                    "id": "2", \<newline>'' @
    ''                    "name": "Member", \<newline>'' @
    ''                    "tenantId": "1"\<newline>'' @
    ''                }\<newline>'' @
    ''            ]\<newline>'' @
    ''        }\<newline>'' @
    ''    }\<newline>'' @
    ''}''\<close>

definition internalError :: string where
  \<open>internalError =
    ''{\<newline>'' @
    ''    "error": {\<newline>'' @
    ''        "message": "Internal failure",\<newline>'' @
    CHR 0x09 # ''"code": 500,\<newline>'' @
    CHR 0x09 # ''"title": Internal Server Error"\<newline>'' @
    ''    }\<newline>'' @
    ''}''\<close>

definition notJSON :: string where
  "notJSON = ''Expecting to find application/json in Content-Type header.'' @
     '' The server could not comply with the request since it is either malformed'' @
     '' or otherwise incorrect. The client is assumed to be in error.''"

definition notAuthorized :: string where
  "notAuthorized = ''The request you have made requires authentication.''"

definition invalidUser :: string where
  "invalidUser = ''Invalid user / password''"

definition StatusOK :: int where "StatusOK = 200"
definition StatusBadRequest :: int where "StatusBadRequest = 400"
definition StatusUnauthorized :: int where "StatusUnauthorized = 401"
definition StatusInternalServerError :: int where "StatusInternalServerError = 500"

subsection \<open>net/http: headers, the response writer, the request\<close>

text \<open>
  \<^verbatim>\<open>http.Header\<close> is a \<^verbatim>\<open>map[string][]string\<close>. \<^verbatim>\<open>Set\<close> replaces the values of a
  key by one value, \<^verbatim>\<open>Get\<close> returns the first value or the empty string. Both
  canonicalise the key; the two keys the handler uses, \<^verbatim>\<open>Content-Type\<close> and
  \<^verbatim>\<open>Content-Length\<close>, are canonical already.
\<close>

type_synonym Header = "string \<rightharpoonup> string list"

definition Header_Set :: "Header \<Rightarrow> string \<Rightarrow> string \<Rightarrow> Header" where
  "Header_Set h k v = h(k \<mapsto> [v])"

definition Header_Get :: "Header \<Rightarrow> string \<Rightarrow> string" where
  "Header_Get h k = (case h k of Some (v # vs) \<Rightarrow> v | _ \<Rightarrow> [])"

text \<open>
  The response writer: the header map that \<^verbatim>\<open>w.Header()\<close> hands out, the status code
  together with the headers as they were when \<^verbatim>\<open>WriteHeader\<close> was first called (later
  changes of the map are not sent, and a second \<^verbatim>\<open>WriteHeader\<close> is ignored), and the
  bytes written. \<^verbatim>\<open>Write\<close> before any \<^verbatim>\<open>WriteHeader\<close> sends status 200 first.
\<close>

record ResponseWriter =
  HeaderMap :: Header
  wrote :: "(int \<times> Header) option"
  written :: string

definition NewRecorder :: ResponseWriter where
  "NewRecorder = \<lparr>HeaderMap = Map.empty, wrote = None, written = []\<rparr>"

definition SetHeader :: "ResponseWriter \<Rightarrow> string \<Rightarrow> string \<Rightarrow> ResponseWriter" where
  "SetHeader w k v = w\<lparr>HeaderMap := Header_Set (HeaderMap w) k v\<rparr>"

definition WriteHeader :: "ResponseWriter \<Rightarrow> int \<Rightarrow> ResponseWriter" where
  "WriteHeader w code =
     (case wrote w of None \<Rightarrow> w\<lparr>wrote := Some (code, HeaderMap w)\<rparr> | Some _ \<Rightarrow> w)"

definition Write :: "ResponseWriter \<Rightarrow> string \<Rightarrow> ResponseWriter" where
  "Write w b = (let w' = WriteHeader w StatusOK in w'\<lparr>written := written w' @ b\<rparr>)"

text \<open>
  The request: its headers, and what reading its body to the end gives, the bytes read
  and the error that ended the reading, if any (\<^verbatim>\<open>ioutil.ReadAll\<close> returns both).
\<close>

datatype Reader = Reader string "string option"

fun ioutil_ReadAll :: "Reader \<Rightarrow> string \<times> string option" where
  "ioutil_ReadAll (Reader content err) = (content, err)"

record Request =
  Header :: Header
  Body :: Reader

text \<open>\<^verbatim>\<open>fmt.Sprintf("%d", n)\<close> for a length \<open>n\<close>.\<close>

fun Sprintf_d :: "nat \<Rightarrow> string" where
  "Sprintf_d n =
     (if n < 10 then [char_of (48 + n)] else Sprintf_d (n div 10) @ [char_of (48 + n mod 10)])"

subsection \<open>The standard library as a parameter\<close>

text \<open>
  \<^verbatim>\<open>json.Marshal\<close> returns the encoding or an error, \<^verbatim>\<open>json.Unmarshal\<close> takes the
  bytes and the value its target holds and returns the value stored or an error; \<open>Inl\<close>
  carries \<^verbatim>\<open>err.Error()\<close>.
\<close>

record stdlib =
  json_Marshal_ErrorWrapper :: "ErrorWrapper \<Rightarrow> string + string"
  json_Marshal_AccessResponse :: "AccessResponse \<Rightarrow> string + string"
  json_Unmarshal_UserPassRequest :: "string \<Rightarrow> UserPassRequest \<Rightarrow> string + UserPassRequest"
  json_Unmarshal_AccessResponse :: "string \<Rightarrow> AccessResponse \<Rightarrow> string + AccessResponse"
  http_StatusText :: "int \<Rightarrow> string"

subsection \<open>encoding/json: the scanner\<close>

text \<open>
  The scanner of \<^verbatim>\<open>encoding/json\<close> is a machine that takes one byte at a time: a
  step, and a stack of the objects and arrays that are open. Here each entry of the
  stack also holds the members or elements read so far, and the step that follows the
  end of a value holds that value, so that the machine yields the value read. A string
  is held as it stands between its quotes, a number as it is written.
\<close>

datatype json =
    JNull | JBool bool | JNumber string | JString string
  | JArray "json list" | JObject "(string \<times> json) list"

datatype parseState =
    parseObjectKey "(string \<times> json) list"
  | parseObjectValue "(string \<times> json) list" string
  | parseArrayValue "json list"

datatype step =
    stepBeginValue | stepBeginValueOrEmpty | stepBeginStringOrEmpty | stepBeginString
  | stepEndValue json
  | stepInString string | stepInStringEsc string | stepInStringEscU nat string
  | stepNeg string | step1 string | step0 string | stepDot string | stepDot0 string
  | stepE string | stepESign string | stepE0 string
  | stepLiteral string json
  | stepError

type_synonym scanner = "step \<times> parseState list"

definition isSpace :: "char \<Rightarrow> bool" where
  "isSpace c = (c \<in> set [CHR '' '', CHR 0x09, CHR 0x0D, CHR 0x0A])"

definition isDigit :: "char \<Rightarrow> bool" where
  "isDigit c = (c \<in> set ''0123456789'')"

definition isHex :: "char \<Rightarrow> bool" where
  "isHex c = (c \<in> set ''0123456789abcdefABCDEF'')"

definition maxNestingDepth :: nat where
  "maxNestingDepth = 10000"

definition pushParseState :: "parseState list \<Rightarrow> parseState \<Rightarrow> step \<Rightarrow> scanner" where
  "pushParseState st newParseState successState =
     (if length (newParseState # st) \<le> maxNestingDepth then (successState, newParseState # st)
      else (stepError, newParseState # st))"

fun endValue :: "json \<Rightarrow> parseState list \<Rightarrow> char \<Rightarrow> scanner" where
  "endValue v [] c = (if isSpace c then (stepEndValue v, []) else (stepError, []))"
| "endValue v (parseObjectKey ms # st) c =
     (if isSpace c then (stepEndValue v, parseObjectKey ms # st)
      else if c = CHR '':'' then
        (case v of JString k \<Rightarrow> (stepBeginValue, parseObjectValue ms k # st)
         | _ \<Rightarrow> (stepError, parseObjectKey ms # st))
      else (stepError, parseObjectKey ms # st))"
| "endValue v (parseObjectValue ms k # st) c =
     (if isSpace c then (stepEndValue v, parseObjectValue ms k # st)
      else if c = CHR '','' then (stepBeginString, parseObjectKey (ms @ [(k, v)]) # st)
      else if c = CHR ''}'' then (stepEndValue (JObject (ms @ [(k, v)])), st)
      else (stepError, parseObjectValue ms k # st))"
| "endValue v (parseArrayValue es # st) c =
     (if isSpace c then (stepEndValue v, parseArrayValue es # st)
      else if c = CHR '','' then (stepBeginValue, parseArrayValue (es @ [v]) # st)
      else if c = CHR '']'' then (stepEndValue (JArray (es @ [v])), st)
      else (stepError, parseArrayValue es # st))"

definition beginValue :: "parseState list \<Rightarrow> char \<Rightarrow> scanner" where
  \<open>beginValue st c =
     (if c = CHR ''{'' then pushParseState st (parseObjectKey []) stepBeginStringOrEmpty
      else if c = CHR ''['' then pushParseState st (parseArrayValue []) stepBeginValueOrEmpty
      else if c = CHR ''"'' then (stepInString [], st)
      else if c = CHR ''-'' then (stepNeg [c], st)
      else if c = CHR ''0'' then (step0 [c], st)
      else if c = CHR ''t'' then (stepLiteral ''rue'' (JBool True), st)
      else if c = CHR ''f'' then (stepLiteral ''alse'' (JBool False), st)
      else if c = CHR ''n'' then (stepLiteral ''ull'' JNull, st)
      else if isDigit c then (step1 [c], st)
      else (stepError, st))\<close>

definition scan_step0 :: "string \<Rightarrow> parseState list \<Rightarrow> char \<Rightarrow> scanner" where
  "scan_step0 s st c =
     (if c = CHR ''.'' then (stepDot (s @ [c]), st)
      else if c = CHR ''e'' \<or> c = CHR ''E'' then (stepE (s @ [c]), st)
      else endValue (JNumber s) st c)"

definition scan_stepESign :: "string \<Rightarrow> parseState list \<Rightarrow> char \<Rightarrow> scanner" where
  "scan_stepESign s st c =
     (if isDigit c then (stepE0 (s @ [c]), st) else (stepError, st))"

fun scan_step :: "scanner \<Rightarrow> char \<Rightarrow> scanner" where
  "scan_step (stepBeginValue, st) c =
     (if isSpace c then (stepBeginValue, st) else beginValue st c)"
| "scan_step (stepBeginValueOrEmpty, st) c =
     (if isSpace c then (stepBeginValueOrEmpty, st)
      else if c = CHR '']'' then
        (case st of parseArrayValue es # st' \<Rightarrow> (stepEndValue (JArray es), st')
         | _ \<Rightarrow> (stepError, st))
      else beginValue st c)"
| \<open>scan_step (stepBeginStringOrEmpty, st) c =
     (if isSpace c then (stepBeginStringOrEmpty, st)
      else if c = CHR ''}'' then
        (case st of parseObjectKey ms # st' \<Rightarrow> (stepEndValue (JObject ms), st')
         | _ \<Rightarrow> (stepError, st))
      else if c = CHR ''"'' then (stepInString [], st)
      else (stepError, st))\<close>
| \<open>scan_step (stepBeginString, st) c =
     (if isSpace c then (stepBeginString, st)
      else if c = CHR ''"'' then (stepInString [], st)
      else (stepError, st))\<close>
| "scan_step (stepEndValue v, st) c = endValue v st c"
| \<open>scan_step (stepInString s, st) c =
     (if c = CHR ''"'' then (stepEndValue (JString s), st)
      else if c = CHR 0x5C then (stepInStringEsc (s @ [c]), st)
      else if of_char c < (0x20 :: nat) then (stepError, st)
      else (stepInString (s @ [c]), st))\<close>
| \<open>scan_step (stepInStringEsc s, st) c =
     (if c \<in> set [CHR ''b'', CHR ''f'', CHR ''n'', CHR ''r'', CHR ''t'', CHR 0x5C, CHR ''/'', CHR ''"'']
      then (stepInString (s @ [c]), st)
      else if c = CHR ''u'' then (stepInStringEscU 0 (s @ [c]), st)
      else (stepError, st))\<close>
| "scan_step (stepInStringEscU n s, st) c =
     (if isHex c then (if n < 3 then (stepInStringEscU (Suc n) (s @ [c]), st)
                       else (stepInString (s @ [c]), st))
      else (stepError, st))"
| "scan_step (stepNeg s, st) c =
     (if c = CHR ''0'' then (step0 (s @ [c]), st)
      else if isDigit c then (step1 (s @ [c]), st)
      else (stepError, st))"
| "scan_step (step1 s, st) c =
     (if isDigit c then (step1 (s @ [c]), st) else scan_step0 s st c)"
| "scan_step (step0 s, st) c = scan_step0 s st c"
| "scan_step (stepDot s, st) c =
     (if isDigit c then (stepDot0 (s @ [c]), st) else (stepError, st))"
| "scan_step (stepDot0 s, st) c =
     (if isDigit c then (stepDot0 (s @ [c]), st)
      else if c = CHR ''e'' \<or> c = CHR ''E'' then (stepE (s @ [c]), st)
      else endValue (JNumber s) st c)"
| "scan_step (stepE s, st) c =
     (if c = CHR ''+'' \<or> c = CHR ''-'' then (stepESign (s @ [c]), st)
      else scan_stepESign s st c)"
| "scan_step (stepESign s, st) c = scan_stepESign s st c"
| "scan_step (stepE0 s, st) c =
     (if isDigit c then (stepE0 (s @ [c]), st) else endValue (JNumber s) st c)"
| "scan_step (stepLiteral [] v, st) c = (stepError, st)"
| "scan_step (stepLiteral (x # xs) v, st) c =
     (if c = x then (if xs = [] then (stepEndValue v, st) else (stepLiteral xs v, st))
      else (stepError, st))"
| "scan_step (stepError, st) c = (stepError, st)"

definition eof :: "scanner \<Rightarrow> json option" where
  "eof s = (case scan_step s (CHR '' '') of (stepEndValue v, []) \<Rightarrow> Some v | _ \<Rightarrow> None)"

definition scan :: "string \<Rightarrow> json option" where
  "scan data = eof (foldl scan_step (stepBeginValue, []) data)"

subsection \<open>encoding/json: string literals and UTF-8\<close>

text \<open>
  \<open>utf8_size s\<close> is the length of the well-formed sequence of two to four bytes at the
  head of \<open>s\<close>, or 0. \<open>unquote\<close> turns the text between the quotes into the string it
  denotes: escapes are replaced, a surrogate pair of \<^verbatim>\<open>\u\<close> escapes is one rune, a lone
  surrogate and a byte that starts no well-formed sequence become U+FFFD.
\<close>

definition utf8_second :: "nat \<Rightarrow> nat \<Rightarrow> bool" where
  "utf8_second b0 b1 =
     (if b0 = 0xE0 then 0xA0 \<le> b1 \<and> b1 \<le> 0xBF
      else if b0 = 0xED then 0x80 \<le> b1 \<and> b1 \<le> 0x9F
      else if b0 = 0xF0 then 0x90 \<le> b1 \<and> b1 \<le> 0xBF
      else if b0 = 0xF4 then 0x80 \<le> b1 \<and> b1 \<le> 0x8F
      else 0x80 \<le> b1 \<and> b1 \<le> 0xBF)"

definition utf8_length :: "nat \<Rightarrow> nat" where
  "utf8_length b0 =
     (if 0xC2 \<le> b0 \<and> b0 \<le> 0xDF then 2
      else if 0xE0 \<le> b0 \<and> b0 \<le> 0xEF then 3
      else if 0xF0 \<le> b0 \<and> b0 \<le> 0xF4 then 4
      else 0)"

definition utf8_size :: "string \<Rightarrow> nat" where
  "utf8_size s =
     (case map of_char (take 4 s) of
        b0 # b1 # bs \<Rightarrow>
          (let n = utf8_length b0
           in if 2 \<le> n \<and> n \<le> 2 + length bs \<and> utf8_second b0 b1 \<and>
                 list_all (\<lambda>b. 0x80 \<le> b \<and> b \<le> 0xBF) (take (n - 2) bs)
              then n else 0)
      | _ \<Rightarrow> 0)"

definition EncodeRune :: "nat \<Rightarrow> string" where
  "EncodeRune r =
     (if r \<le> 0x7F then [char_of r]
      else if r \<le> 0x7FF then [char_of (0xC0 + r div 64), char_of (0x80 + r mod 64)]
      else if 0x10FFFF < r \<or> (0xD800 \<le> r \<and> r \<le> 0xDFFF) then [CHR 0xEF, CHR 0xBF, CHR 0xBD]
      else if r \<le> 0xFFFF then
        [char_of (0xE0 + r div 4096), char_of (0x80 + r div 64 mod 64), char_of (0x80 + r mod 64)]
      else [char_of (0xF0 + r div 262144), char_of (0x80 + r div 4096 mod 64),
            char_of (0x80 + r div 64 mod 64), char_of (0x80 + r mod 64)])"

definition hexval :: "char \<Rightarrow> nat option" where
  "hexval c =
     (let b = of_char c
      in if 48 \<le> b \<and> b \<le> 57 then Some (b - 48)
         else if 97 \<le> b \<and> b \<le> 102 then Some (b - 87)
         else if 65 \<le> b \<and> b \<le> 70 then Some (b - 55)
         else None)"

definition getu4 :: "string \<Rightarrow> nat option" where
  "getu4 s =
     (case s of
        b # u # h1 # h2 # h3 # h4 # _ \<Rightarrow>
          (if b = CHR 0x5C \<and> u = CHR ''u'' then
             (case (hexval h1, hexval h2, hexval h3, hexval h4) of
                (Some a, Some b, Some c, Some d) \<Rightarrow> Some (((a * 16 + b) * 16 + c) * 16 + d)
              | _ \<Rightarrow> None)
           else None)
      | _ \<Rightarrow> None)"

definition utf16_DecodeRune :: "nat \<Rightarrow> nat option \<Rightarrow> nat option" where
  "utf16_DecodeRune r1 r2' =
     (case r2' of
        None \<Rightarrow> None
      | Some r2 \<Rightarrow>
          if 0xD800 \<le> r1 \<and> r1 < 0xDC00 \<and> 0xDC00 \<le> r2 \<and> r2 < 0xE000
          then Some ((r1 - 0xD800) * 1024 + (r2 - 0xDC00) + 0x10000)
          else None)"

definition escape_byte :: "char \<Rightarrow> char option" where
  \<open>escape_byte e =
     (if e = CHR ''"'' \<or> e = CHR 0x5C \<or> e = CHR ''/'' \<or> e = CHR 0x27 then Some e
      else if e = CHR ''b'' then Some (CHR 0x08)
      else if e = CHR ''f'' then Some (CHR 0x0C)
      else if e = CHR ''n'' then Some (CHR 0x0A)
      else if e = CHR ''r'' then Some (CHR 0x0D)
      else if e = CHR ''t'' then Some (CHR 0x09)
      else None)\<close>

fun unquote :: "string \<Rightarrow> string option" where
  "unquote [] = Some []"
| \<open>unquote (c # cs) =
     (if c = CHR 0x5C then
        (case cs of
           [] \<Rightarrow> None
         | e # r \<Rightarrow>
             if e = CHR ''u'' then
               (case getu4 (c # cs) of
                  None \<Rightarrow> None
                | Some rr \<Rightarrow>
                    if 0xD800 \<le> rr \<and> rr < 0xE000 then
                      (case utf16_DecodeRune rr (getu4 (drop 4 r)) of
                         Some dec \<Rightarrow> map_option ((@) (EncodeRune dec)) (unquote (drop 10 r))
                       | None \<Rightarrow> map_option ((@) (EncodeRune 0xFFFD)) (unquote (drop 4 r)))
                    else map_option ((@) (EncodeRune rr)) (unquote (drop 4 r)))
             else
               (case escape_byte e of
                  None \<Rightarrow> None
                | Some b \<Rightarrow> map_option ((#) b) (unquote r)))
      else if c = CHR ''"'' \<or> of_char c < (0x20 :: nat) then None
      else if of_char c < (0x80 :: nat) then map_option ((#) c) (unquote cs)
      else
        (let n = utf8_size (c # cs)
         in if n = 0 then map_option ((@) (EncodeRune 0xFFFD)) (unquote cs)
            else map_option ((@) (take n (c # cs))) (unquote (drop (n - 1) cs))))\<close>

subsection \<open>encoding/json: storing a value into a Go value\<close>

text \<open>
  \<^verbatim>\<open>Unmarshal\<close> checks the whole input with the scanner first and decodes after that.
  A JSON value of a kind that the target cannot hold is an \<^verbatim>\<open>UnmarshalTypeError\<close>:
  the decoder skips that value, goes on, and \<^verbatim>\<open>Unmarshal\<close> returns the first such
  error at the end. The handler drops the target when \<^verbatim>\<open>Unmarshal\<close> returns an
  error, so the decoders here stop at the first error. \<^verbatim>\<open>null\<close> leaves a string or
  a struct as it is and makes a slice nil. The texts of the errors are abbreviated.
\<close>

definition SyntaxError :: string where
  "SyntaxError = ''json: syntax error''"

fun UnmarshalTypeError :: "json \<Rightarrow> string" where
  "UnmarshalTypeError JNull = ''json: cannot unmarshal null into Go value''"
| "UnmarshalTypeError (JBool b) = ''json: cannot unmarshal bool into Go value''"
| "UnmarshalTypeError (JNumber n) = ''json: cannot unmarshal number into Go value''"
| "UnmarshalTypeError (JString s) = ''json: cannot unmarshal string into Go value''"
| "UnmarshalTypeError (JArray es) = ''json: cannot unmarshal array into Go value''"
| "UnmarshalTypeError (JObject ms) = ''json: cannot unmarshal object into Go value''"

type_synonym 'a decoder = "json \<Rightarrow> 'a \<Rightarrow> string + 'a"

fun decode_string :: "string decoder" where
  "decode_string JNull old = Inr old"
| "decode_string (JString s) old = (case unquote s of Some t \<Rightarrow> Inr t | None \<Rightarrow> Inl SyntaxError)"
| "decode_string j old = Inl (UnmarshalTypeError j)"

text \<open>
  A key of an object selects the field whose name it equals, or else the first field
  whose name it equals under case folding. The names of the fields here are ASCII; the
  runes outside ASCII that fold to an ASCII letter are U+017F (to S) and U+212A (to K).
\<close>

fun foldName :: "string \<Rightarrow> string" where
  "foldName [] = []"
| "foldName (c # cs) =
     (if (97 :: nat) \<le> of_char c \<and> of_char c \<le> (122 :: nat)
      then char_of (of_char c - (32 :: nat)) # foldName cs
      else if c = CHR 0xC5 \<and> take 1 cs = [CHR 0xBF] then CHR ''S'' # foldName (drop 1 cs)
      else if c = CHR 0xE2 \<and> take 2 cs = [CHR 0x84, CHR 0xAA] then CHR ''K'' # foldName (drop 2 cs)
      else c # foldName cs)"

type_synonym 'a field = "string \<times> 'a decoder"

definition field :: "string \<Rightarrow> ('a \<Rightarrow> 'b) \<Rightarrow> ('b \<Rightarrow> 'a \<Rightarrow> 'a) \<Rightarrow> 'b decoder \<Rightarrow> 'a field" where
  "field name get put dec =
     (name, \<lambda>j x. case dec j (get x) of Inl err \<Rightarrow> Inl err | Inr y \<Rightarrow> Inr (put y x))"

definition lookup_field :: "'a field list \<Rightarrow> string \<Rightarrow> 'a decoder option" where
  "lookup_field fs key =
     (case map_of fs key of
        Some f \<Rightarrow> Some f
      | None \<Rightarrow> map_option snd (find (\<lambda>f. foldName (fst f) = foldName key) fs))"

fun decode_members :: "'a field list \<Rightarrow> (string \<times> json) list \<Rightarrow> 'a \<Rightarrow> string + 'a" where
  "decode_members fs [] x = Inr x"
| "decode_members fs ((k, v) # ms) x =
     (case unquote k of
        None \<Rightarrow> Inl SyntaxError
      | Some key \<Rightarrow>
          (case lookup_field fs key of
             None \<Rightarrow> decode_members fs ms x
           | Some f \<Rightarrow>
               (case f v x of Inl err \<Rightarrow> Inl err | Inr x' \<Rightarrow> decode_members fs ms x')))"

definition decode_struct :: "'a field list \<Rightarrow> 'a decoder" where
  "decode_struct fs j x =
     (case j of
        JObject ms \<Rightarrow> decode_members fs ms x
      | JNull \<Rightarrow> Inr x
      | _ \<Rightarrow> Inl (UnmarshalTypeError j))"

text \<open>
  An array is stored into a slice element by element: into the element the slice holds
  at that index, or into a zero element beyond its length; the slice ends up as long as
  the array.
\<close>

fun decode_elems :: "'a decoder \<Rightarrow> 'a \<Rightarrow> json list \<Rightarrow> 'a list \<Rightarrow> string + 'a list" where
  "decode_elems dec z [] old = Inr []"
| "decode_elems dec z (j # js) old =
     (case dec j (case old of [] \<Rightarrow> z | x # xs \<Rightarrow> x) of
        Inl err \<Rightarrow> Inl err
      | Inr y \<Rightarrow>
          (case decode_elems dec z js (tl old) of
             Inl err \<Rightarrow> Inl err
           | Inr ys \<Rightarrow> Inr (y # ys)))"

definition decode_slice :: "'a decoder \<Rightarrow> 'a \<Rightarrow> 'a slice decoder" where
  "decode_slice dec z j old =
     (case j of
        JArray es \<Rightarrow>
          (case decode_elems dec z es (case old of None \<Rightarrow> [] | Some xs \<Rightarrow> xs) of
             Inl err \<Rightarrow> Inl err
           | Inr ys \<Rightarrow> Inr (Some ys))
      | JNull \<Rightarrow> Inr None
      | _ \<Rightarrow> Inl (UnmarshalTypeError j))"

definition decode_PasswordCredentials :: "PasswordCredentials decoder" where
  "decode_PasswordCredentials = decode_struct
     [field ''username'' Username (\<lambda>y x. x\<lparr>Username := y\<rparr>) decode_string,
      field ''password'' Password (\<lambda>y x. x\<lparr>Password := y\<rparr>) decode_string]"

definition decode_Auth :: "Auth decoder" where
  "decode_Auth = decode_struct
     [field ''passwordCredentials'' PasswordCredentials (\<lambda>y x. x\<lparr>PasswordCredentials := y\<rparr>)
        decode_PasswordCredentials,
      field ''tenantName'' TenantName (\<lambda>y x. x\<lparr>TenantName := y\<rparr>) decode_string]"

definition decode_UserPassRequest :: "UserPassRequest decoder" where
  "decode_UserPassRequest = decode_struct
     [field ''auth'' Auth (\<lambda>y x. x\<lparr>Auth := y\<rparr>) decode_Auth]"

definition decode_Endpoint :: "Endpoint decoder" where
  "decode_Endpoint = decode_struct
     [field ''adminURL'' AdminURL (\<lambda>y x. x\<lparr>AdminURL := y\<rparr>) decode_string,
      field ''internalURL'' InternalURL (\<lambda>y x. x\<lparr>InternalURL := y\<rparr>) decode_string,
      field ''publicURL'' PublicURL (\<lambda>y x. x\<lparr>PublicURL := y\<rparr>) decode_string,
      field ''region'' Region (\<lambda>y x. x\<lparr>Region := y\<rparr>) decode_string]"

definition decode_Service :: "Service decoder" where
  "decode_Service = decode_struct
     [field ''name'' Service.Name (\<lambda>y x. x\<lparr>Service.Name := y\<rparr>) decode_string,
      field ''type'' Type (\<lambda>y x. x\<lparr>Type := y\<rparr>) decode_string,
      field ''Endpoints'' Endpoints (\<lambda>y x. x\<lparr>Endpoints := y\<rparr>)
        (decode_slice decode_Endpoint zero_Endpoint)]"

definition decode_Tenant :: "Tenant decoder" where
  "decode_Tenant = decode_struct
     [field ''id'' Tenant.Id' (\<lambda>y x. x\<lparr>Tenant.Id' := y\<rparr>) decode_string,
      field ''name'' Tenant.Name (\<lambda>y x. x\<lparr>Tenant.Name := y\<rparr>) decode_string]"

definition decode_TokenResponse :: "TokenResponse decoder" where
  "decode_TokenResponse = decode_struct
     [field ''expires'' Expires (\<lambda>y x. x\<lparr>Expires := y\<rparr>) decode_string,
      field ''id'' TokenResponse.Id' (\<lambda>y x. x\<lparr>TokenResponse.Id' := y\<rparr>) decode_string,
      field ''tenant'' Tenant (\<lambda>y x. x\<lparr>Tenant := y\<rparr>) decode_Tenant]"

definition decode_RoleResponse :: "RoleResponse decoder" where
  "decode_RoleResponse = decode_struct
     [field ''id'' RoleResponse.Id' (\<lambda>y x. x\<lparr>RoleResponse.Id' := y\<rparr>) decode_string,
      field ''name'' RoleResponse.Name (\<lambda>y x. x\<lparr>RoleResponse.Name := y\<rparr>) decode_string,
      field ''tenantId'' TenantId (\<lambda>y x. x\<lparr>TenantId := y\<rparr>) decode_string]"

definition decode_UserResponse :: "UserResponse decoder" where
  "decode_UserResponse = decode_struct
     [field ''id'' UserResponse.Id' (\<lambda>y x. x\<lparr>UserResponse.Id' := y\<rparr>) decode_string,
      field ''name'' UserResponse.Name (\<lambda>y x. x\<lparr>UserResponse.Name := y\<rparr>) decode_string,
      field ''roles'' Roles (\<lambda>y x. x\<lparr>Roles := y\<rparr>)
        (decode_slice decode_RoleResponse zero_RoleResponse)]"

definition decode_Access :: "Access decoder" where
  "decode_Access = decode_struct
     [field ''serviceCatalog'' ServiceCatalog (\<lambda>y x. x\<lparr>ServiceCatalog := y\<rparr>)
        (decode_slice decode_Service zero_Service),
      field ''token'' Token (\<lambda>y x. x\<lparr>Token := y\<rparr>) decode_TokenResponse,
      field ''user'' User (\<lambda>y x. x\<lparr>User := y\<rparr>) decode_UserResponse]"

definition decode_AccessResponse :: "AccessResponse decoder" where
  "decode_AccessResponse = decode_struct
     [field ''access'' Access (\<lambda>y x. x\<lparr>Access := y\<rparr>) decode_Access]"

definition Unmarshal :: "'a decoder \<Rightarrow> string \<Rightarrow> 'a \<Rightarrow> string + 'a" where
  "Unmarshal dec data x = (case scan data of None \<Rightarrow> Inl SyntaxError | Some j \<Rightarrow> dec j x)"

subsection \<open>encoding/json: encoding a Go value\<close>

text \<open>
  A string is written between quotes: the quote and the backslash with a backslash, the
  control characters, \<^verbatim>\<open><\<close>, \<^verbatim>\<open>>\<close> and \<^verbatim>\<open>&\<close> escaped, a byte that starts no well-formed
  UTF-8 sequence as \<^verbatim>\<open>\ufffd\<close>, U+2028 and U+2029 escaped, every other byte as it is.
\<close>

definition hex :: "nat \<Rightarrow> char" where
  "hex n = ''0123456789abcdef'' ! n"

definition htmlSafe :: "char \<Rightarrow> bool" where
  \<open>htmlSafe c = ((0x20 :: nat) \<le> of_char c \<and> of_char c < (0x80 :: nat) \<and>
     c \<notin> set [CHR ''"'', CHR ''&'', CHR ''<'', CHR ''>'', CHR 0x5C])\<close>

fun appendString :: "string \<Rightarrow> string" where
  "appendString [] = []"
| \<open>appendString (c # cs) =
     (if of_char c < (0x80 :: nat) then
        (if htmlSafe c then c # appendString cs
         else if c = CHR 0x5C \<or> c = CHR ''"'' then CHR 0x5C # c # appendString cs
         else if c = CHR 0x08 then CHR 0x5C # CHR ''b'' # appendString cs
         else if c = CHR 0x0C then CHR 0x5C # CHR ''f'' # appendString cs
         else if c = CHR 0x0A then CHR 0x5C # CHR ''n'' # appendString cs
         else if c = CHR 0x0D then CHR 0x5C # CHR ''r'' # appendString cs
         else if c = CHR 0x09 then CHR 0x5C # CHR ''t'' # appendString cs
         else CHR 0x5C # ''u00'' @ [hex (of_char c div 16), hex (of_char c mod 16)] @ appendString cs)
      else
        (let n = utf8_size (c # cs)
         in if n = 0 then CHR 0x5C # ''ufffd'' @ appendString cs
            else if take 3 (c # cs) = [CHR 0xE2, CHR 0x80, CHR 0xA8]
              then CHR 0x5C # ''u2028'' @ appendString (drop 2 cs)
            else if take 3 (c # cs) = [CHR 0xE2, CHR 0x80, CHR 0xA9]
              then CHR 0x5C # ''u2029'' @ appendString (drop 2 cs)
            else take n (c # cs) @ appendString (drop (n - 1) cs)))\<close>

definition encode_string :: "string \<Rightarrow> string" where
  \<open>encode_string s = ''"'' @ appendString s @ ''"''\<close>

definition encode_int :: "int \<Rightarrow> string" where
  "encode_int i = (if i < 0 then CHR ''-'' # Sprintf_d (nat (- i)) else Sprintf_d (nat i))"

fun encode_elems :: "('a \<Rightarrow> string) \<Rightarrow> 'a list \<Rightarrow> string" where
  "encode_elems enc [] = []"
| "encode_elems enc [x] = enc x"
| "encode_elems enc (x # y # ys) = enc x @ '','' @ encode_elems enc (y # ys)"

definition encode_slice :: "('a \<Rightarrow> string) \<Rightarrow> 'a slice \<Rightarrow> string" where
  "encode_slice enc s = (case s of None \<Rightarrow> ''null'' | Some xs \<Rightarrow> ''['' @ encode_elems enc xs @ '']'')"

definition encode_ErrorResponse :: "ErrorResponse \<Rightarrow> string" where
  \<open>encode_ErrorResponse e =
     ''{"message":'' @ encode_string (Message e) @
     '',"code":'' @ encode_int (Code e) @
     '',"title":'' @ encode_string (Title e) @ ''}''\<close>

definition encode_ErrorWrapper :: "ErrorWrapper \<Rightarrow> string" where
  \<open>encode_ErrorWrapper e = ''{"error":'' @ encode_ErrorResponse (Error e) @ ''}''\<close>

definition encode_Endpoint :: "Endpoint \<Rightarrow> string" where
  \<open>encode_Endpoint e =
     ''{"adminURL":'' @ encode_string (AdminURL e) @
     '',"internalURL":'' @ encode_string (InternalURL e) @
     '',"publicURL":'' @ encode_string (PublicURL e) @
     '',"region":'' @ encode_string (Region e) @ ''}''\<close>

definition encode_Service :: "Service \<Rightarrow> string" where
  \<open>encode_Service s =
     ''{"name":'' @ encode_string (Service.Name s) @
     '',"type":'' @ encode_string (Type s) @
     '',"Endpoints":'' @ encode_slice encode_Endpoint (Endpoints s) @ ''}''\<close>

definition encode_Tenant :: "Tenant \<Rightarrow> string" where
  \<open>encode_Tenant t =
     ''{"id":'' @ encode_string (Tenant.Id' t) @
     '',"name":'' @ encode_string (Tenant.Name t) @ ''}''\<close>

definition encode_TokenResponse :: "TokenResponse \<Rightarrow> string" where
  \<open>encode_TokenResponse t =
     ''{"expires":'' @ encode_string (Expires t) @
     '',"id":'' @ encode_string (TokenResponse.Id' t) @
     '',"tenant":'' @ encode_Tenant (Tenant t) @ ''}''\<close>

definition encode_RoleResponse :: "RoleResponse \<Rightarrow> string" where
  \<open>encode_RoleResponse r =
     ''{"id":'' @ encode_string (RoleResponse.Id' r) @
     '',"name":'' @ encode_string (RoleResponse.Name r) @
     '',"tenantId":'' @ encode_string (TenantId r) @ ''}''\<close>

definition encode_UserResponse :: "UserResponse \<Rightarrow> string" where
  \<open>encode_UserResponse u =
     ''{"id":'' @ encode_string (UserResponse.Id' u) @
     '',"name":'' @ encode_string (UserResponse.Name u) @
     '',"roles":'' @ encode_slice encode_RoleResponse (Roles u) @ ''}''\<close>

definition encode_Access :: "Access \<Rightarrow> string" where
  \<open>encode_Access a =
     ''{"serviceCatalog":'' @ encode_slice encode_Service (ServiceCatalog a) @
     '',"token":'' @ encode_TokenResponse (Token a) @
     '',"user":'' @ encode_UserResponse (User a) @ ''}''\<close>

definition encode_AccessResponse :: "AccessResponse \<Rightarrow> string" where
  \<open>encode_AccessResponse r = ''{"access":'' @ encode_Access (Access r) @ ''}''\<close>

subsection \<open>The library the program runs with\<close>

text \<open>\<^verbatim>\<open>http.StatusText\<close>: the text of a status code, empty for a code it does not know.\<close>

definition statusText :: "(int \<times> string) list" where
  "statusText =
     [(100, ''Continue''), (101, ''Switching Protocols''), (102, ''Processing''),
      (103, ''Early Hints''),
      (200, ''OK''), (201, ''Created''), (202, ''Accepted''),
      (203, ''Non-Authoritative Information''), (204, ''No Content''),
      (205, ''Reset Content''), (206, ''Partial Content''), (207, ''Multi-Status''),
      (208, ''Already Reported''), (226, ''IM Used''),
      (300, ''Multiple Choices''), (301, ''Moved Permanently''), (302, ''Found''),
      (303, ''See Other''), (304, ''Not Modified''), (305, ''Use Proxy''),
      (307, ''Temporary Redirect''), (308, ''Permanent Redirect''),
      (400, ''Bad Request''), (401, ''Unauthorized''), (402, ''Payment Required''),
      (403, ''Forbidden''), (404, ''Not Found''), (405, ''Method Not Allowed''),
      (406, ''Not Acceptable''), (407, ''Proxy Authentication Required''),
      (408, ''Request Timeout''), (409, ''Conflict''), (410, ''Gone''),
      (411, ''Length Required''), (412, ''Precondition Failed''),
      (413, ''Request Entity Too Large''), (414, ''Request URI Too Long''),
      (415, ''Unsupported Media Type''), (416, ''Requested Range Not Satisfiable''),
      (417, ''Expectation Failed''), (418, ''I'' @ [CHR 0x27] @ ''m a teapot''),
      (421, ''Misdirected Request''), (422, ''Unprocessable Entity''), (423, ''Locked''),
      (424, ''Failed Dependency''), (425, ''Too Early''), (426, ''Upgrade Required''),
      (428, ''Precondition Required''), (429, ''Too Many Requests''),
      (431, ''Request Header Fields Too Large''),
      (451, ''Unavailable For Legal Reasons''),
      (500, ''Internal Server Error''), (501, ''Not Implemented''), (502, ''Bad Gateway''),
      (503, ''Service Unavailable''), (504, ''Gateway Timeout''),
      (505, ''HTTP Version Not Supported''), (506, ''Variant Also Negotiates''),
      (507, ''Insufficient Storage''), (508, ''Loop Detected''), (510, ''Not Extended''),
      (511, ''Network Authentication Required'')]"

definition StatusText :: "int \<Rightarrow> string" where
  "StatusText code = (case map_of statusText code of Some t \<Rightarrow> t | None \<Rightarrow> [])"

text \<open>
  \<^verbatim>\<open>json.Marshal\<close> has no error for a value built of structs, slices, strings and
  integers.
\<close>

definition golib :: stdlib where
  "golib =
     \<lparr>json_Marshal_ErrorWrapper = (\<lambda>e. Inr (encode_ErrorWrapper e)),
      json_Marshal_AccessResponse = (\<lambda>r. Inr (encode_AccessResponse r)),
      json_Unmarshal_UserPassRequest = Unmarshal decode_UserPassRequest,
      json_Unmarshal_AccessResponse = Unmarshal decode_AccessResponse,
      http_StatusText = StatusText\<rparr>"

subsection \<open>The store and the handler (lines 137-232)\<close>

text \<open>
  \<^verbatim>\<open>UserInfo\<close> is declared in another file of the package; \<^verbatim>\<open>AddUser\<close> and
  \<^verbatim>\<open>ServeHTTP\<close> use its fields \<^verbatim>\<open>secret\<close> and \<^verbatim>\<open>token\<close>.
\<close>

record UserInfo =
  secret :: string
  token :: string

record UserPass =
  users :: "string \<rightharpoonup> UserInfo"

definition NewUserPass :: UserPass where
  "NewUserPass = \<lparr>users = Map.empty\<rparr>"

text \<open>
  \<^verbatim>\<open>AddUser\<close> draws its token from \<^verbatim>\<open>randomHexToken()\<close>, which is declared in another
  file of the package and reads a random source: the string drawn is the parameter
  \<open>tok\<close>. The result is the token returned and the store after the call.
\<close>

definition AddUser :: "string \<Rightarrow> UserPass \<Rightarrow> string \<Rightarrow> string \<Rightarrow> string \<times> UserPass" where
  "AddUser tok u user secret' =
     (let token' = tok;
          u' = u\<lparr>users := (users u)(user \<mapsto> \<lparr>secret = secret', token = token'\<rparr>)\<rparr>
      in (token', u'))"

definition ReturnFailure ::
  "stdlib \<Rightarrow> UserPass \<Rightarrow> ResponseWriter \<Rightarrow> int \<Rightarrow> string \<Rightarrow> UserPass \<times> ResponseWriter" where
  "ReturnFailure lib u w status message =
     (let e = \<lparr>Error = \<lparr>Message = message, Code = status, Title = http_StatusText lib status\<rparr>\<rparr>
      in case json_Marshal_ErrorWrapper lib e of
           Inl err \<Rightarrow>
             (let w = SetHeader w ''Content-Length'' (Sprintf_d (length internalError));
                  w = WriteHeader w StatusInternalServerError
              in (u, Write w internalError))
         | Inr content \<Rightarrow>
             (let w = SetHeader w ''Content-Length'' (Sprintf_d (length content));
                  w = WriteHeader w status
              in (u, Write w content)))"

text \<open>
  \<open>set_Token_Id\<close> is the assignment \<^verbatim>\<open>res.Access.Token.Id = userInfo.token\<close>. In
  \<^verbatim>\<open>ServeHTTP\<close> every \<^verbatim>\<open>return\<close> of the source is one branch; the \<^verbatim>\<open>panic\<close> that
  ends the source stands after an \<^verbatim>\<open>if\<close> whose two branches return, and is never
  reached.
\<close>

definition set_Token_Id :: "AccessResponse \<Rightarrow> string \<Rightarrow> AccessResponse" where
  "set_Token_Id res tok =
     res\<lparr>Access := (Access res)\<lparr>Token := (Token (Access res))\<lparr>TokenResponse.Id' := tok\<rparr>\<rparr>\<rparr>"

definition ServeHTTP ::
  "stdlib \<Rightarrow> UserPass \<Rightarrow> ResponseWriter \<Rightarrow> Request \<Rightarrow> UserPass \<times> ResponseWriter" where
  "ServeHTTP lib u w r =
     (let req = zero_UserPassRequest;
          w = SetHeader w ''Content-Type'' ''application/json''
      in if Header_Get (Header r) ''Content-Type'' \<noteq> ''application/json''
         then ReturnFailure lib u w StatusBadRequest notJSON
         else case ioutil_ReadAll (Body r) of
           (content, Some err) \<Rightarrow> (u, WriteHeader w StatusBadRequest)
         | (content, None) \<Rightarrow>
         (case json_Unmarshal_UserPassRequest lib content req of
           Inl err \<Rightarrow> ReturnFailure lib u w StatusBadRequest notJSON
         | Inr req \<Rightarrow>
         (case users u (Username (PasswordCredentials (Auth req))) of
           None \<Rightarrow> ReturnFailure lib u w StatusUnauthorized notAuthorized
         | Some userInfo \<Rightarrow>
           if secret userInfo \<noteq> Password (PasswordCredentials (Auth req))
           then ReturnFailure lib u w StatusUnauthorized invalidUser
           else
         (case json_Unmarshal_AccessResponse lib exampleResponse zero_AccessResponse of
           Inl err \<Rightarrow> ReturnFailure lib u w StatusInternalServerError err
         | Inr res \<Rightarrow>
         (let res = set_Token_Id res (token userInfo)
          in case json_Marshal_AccessResponse lib res of
            Inl err \<Rightarrow> ReturnFailure lib u w StatusInternalServerError err
          | Inr content \<Rightarrow> (u, Write (WriteHeader w StatusOK) content))))))"

subsection \<open>What a response shows, and runs of the service\<close>

text \<open>The status code sent and the headers sent with it.\<close>

definition status_sent :: "ResponseWriter \<Rightarrow> int option" where
  "status_sent w = map_option fst (wrote w)"

definition header_sent :: "ResponseWriter \<Rightarrow> Header" where
  "header_sent w = (case wrote w of None \<Rightarrow> Map.empty | Some (code, h) \<Rightarrow> h)"

text \<open>
  A run of the service is a list of calls, handled one after the other: registrations
  (with the token each draws) and requests (each with the writer it answers on).
  \<open>exec\<close> gives the store after the run.
\<close>

datatype call = Call_AddUser string string string | Call_ServeHTTP ResponseWriter Request

fun exec :: "stdlib \<Rightarrow> UserPass \<Rightarrow> call list \<Rightarrow> UserPass" where
  "exec lib u [] = u"
| "exec lib u (Call_AddUser tok user secret' # cs) = exec lib (snd (AddUser tok u user secret')) cs"
| "exec lib u (Call_ServeHTTP w r # cs) = exec lib (fst (ServeHTTP lib u w r)) cs"

fun registers :: "string \<Rightarrow> call \<Rightarrow> bool" where
  "registers user (Call_AddUser tok user' secret') = (user' = user)"
| "registers user (Call_ServeHTTP w r) = False"

text \<open>The value that the fixture \<open>exampleResponse\<close> denotes.\<close>

definition exampleAccess :: AccessResponse where
  "exampleAccess =
     \<lparr>Access =
        \<lparr>ServiceCatalog = Some
           [\<lparr>Service.Name = ''nova'', Type = ''compute'', Endpoints = Some
               [\<lparr>AdminURL = ''https://nova-api.trystack.org:9774/v1.1/1'',
                 InternalURL = ''https://nova-api.trystack.org:9774/v1.1/1'',
                 PublicURL = ''https://nova-api.trystack.org:9774/v1.1/1'',
                 Region = ''RegionOne''\<rparr>]\<rparr>,
            \<lparr>Service.Name = ''glance'', Type = ''image'', Endpoints = Some
               [\<lparr>AdminURL = ''https://GLANCE_API_IS_NOT_DISCLOSED/v1.1/1'',
                 InternalURL = ''https://GLANCE_API_IS_NOT_DISCLOSED/v1.1/1'',
                 PublicURL = ''https://GLANCE_API_IS_NOT_DISCLOSED/v1.1/1'',
                 Region = ''RegionOne''\<rparr>]\<rparr>,
            \<lparr>Service.Name = ''keystone'', Type = ''identity'', Endpoints = Some
               [\<lparr>AdminURL = ''https://nova-api.trystack.org:5443/v2.0'',
                 InternalURL = ''https://keystone.trystack.org:5000/v2.0'',
                 PublicURL = ''https://keystone.trystack.org:5000/v2.0'',
                 Region = ''RegionOne''\<rparr>]\<rparr>],
         Token =
           \<lparr>Expires = ''2012-02-15T19:32:21'',
            TokenResponse.Id' = ''5df9d45d-d198-4222-9b4c-7a280aa35666'',
            Tenant = \<lparr>Tenant.Id' = ''1'', Tenant.Name = ''admin''\<rparr>\<rparr>,
         User =
           \<lparr>UserResponse.Id' = ''14'', UserResponse.Name = ''annegentle'', Roles = Some
              [\<lparr>RoleResponse.Id' = ''2'', RoleResponse.Name = ''Member'', TenantId = ''1''\<rparr>]\<rparr>\<rparr>\<rparr>"

text \<open>
  The encoding of the fixture's document with a token \<open>t\<close> is the bytes
  \<open>body_before_token\<close>, the token as a string literal encodes it, and the bytes
  \<open>body_after_token\<close>.
\<close>

definition body_before_token :: string where
  \<open>body_before_token =
     ''{"access":{"serviceCatalog":'' @
     encode_slice encode_Service (ServiceCatalog (Access exampleAccess)) @
     '',"token":{"expires":'' @ encode_string (Expires (Token (Access exampleAccess))) @
     '',"id":"''\<close>

definition body_after_token :: string where
  \<open>body_after_token =
     ''","tenant":'' @ encode_Tenant (Tenant (Token (Access exampleAccess))) @
     ''},"user":'' @ encode_UserResponse (User (Access exampleAccess)) @ ''}}''\<close>

text \<open>
  Inputs for the examples: a request with the JSON content type and a given body, read
  without error; the login of alice; a store in which alice is registered with the token
  \<open>T\<close>; and a library whose \<^verbatim>\<open>json.Marshal\<close> fails on the error envelope.
\<close>

definition json_request :: "string \<Rightarrow> Request" where
  "json_request body =
     \<lparr>Header = [''Content-Type'' \<mapsto> [''application/json'']], Body = Reader body None\<rparr>"

definition alice_login :: "string \<Rightarrow> string" where
  \<open>alice_login password =
     ''{"auth":{"passwordCredentials":{"username":"alice","password":"'' @ password @ ''"}}}''\<close>

definition alice_store :: UserPass where
  "alice_store = snd (AddUser ''T'' NewUserPass ''alice'' ''wonderland'')"


section \<open>Properties\<close>

subsection \<open>Evaluations of the fixture, the fallback payload and the examples\<close>


lemma Unmarshal_exampleResponse:
  "Unmarshal decode_AccessResponse exampleResponse zero_AccessResponse = Inr exampleAccess"
  by code_simp

lemma Unmarshal_alice:
  "Unmarshal decode_UserPassRequest (alice_login p) zero_UserPassRequest =
     Inr \<lparr>Auth = \<lparr>PasswordCredentials = \<lparr>Username = ''alice'', Password = p\<rparr>, TenantName = []\<rparr>\<rparr>"
  if "p = ''wonderland'' \<or> p = ''wrong''"
  using that by (elim disjE; hypsubst) code_simp+

lemma Unmarshal_empty_object:
  "Unmarshal decode_UserPassRequest ''{}'' zero_UserPassRequest = Inr zero_UserPassRequest"
  by code_simp

lemma envelopes:
  \<open>encode_ErrorWrapper \<lparr>Error = \<lparr>Message = notJSON, Code = 400, Title = ''Bad Request''\<rparr>\<rparr> =
     ''{"error":{"message":"Expecting to find application/json in Content-Type header.'' @
     '' The server could not comply with the request since it is either malformed'' @
     '' or otherwise incorrect. The client is assumed to be in error.'' @
     ''","code":400,"title":"Bad Request"}}''\<close>
  \<open>encode_ErrorWrapper
     \<lparr>Error = \<lparr>Message = ''The request you have made requires authentication.'',
                Code = 401, Title = ''Unauthorized''\<rparr>\<rparr> =
     ''{"error":{"message":"The request you have made requires authentication.",'' @
     ''"code":401,"title":"Unauthorized"}}''\<close>
  \<open>encode_ErrorWrapper
     \<lparr>Error = \<lparr>Message = ''Invalid user / password'', Code = 401,
                Title = ''Unauthorized''\<rparr>\<rparr> =
     ''{"error":{"message":"Invalid user / password","code":401,"title":"Unauthorized"}}''\<close>
  by code_simp+

lemma golib_sel:
  "json_Marshal_ErrorWrapper golib e = Inr (encode_ErrorWrapper e)"
  "json_Marshal_AccessResponse golib a = Inr (encode_AccessResponse a)"
  "json_Unmarshal_UserPassRequest golib = Unmarshal decode_UserPassRequest"
  "json_Unmarshal_AccessResponse golib = Unmarshal decode_AccessResponse"
  "http_StatusText golib = StatusText"
  by (simp_all add: golib_def)

lemma StatusText_values:
  "StatusText 400 = ''Bad Request''" "StatusText 401 = ''Unauthorized''"
  "StatusText 500 = ''Internal Server Error''"
  by (simp_all add: StatusText_def statusText_def)

lemma json_request_sel:
  "Header_Get (Header (json_request b)) ''Content-Type'' = ''application/json''"
  "ioutil_ReadAll (Body (json_request b)) = (b, None)"
  by (simp_all add: json_request_def Header_Get_def)

lemma alice_store_users:
  "users alice_store = [''alice'' \<mapsto> \<lparr>secret = ''wonderland'', token = ''T''\<rparr>]"
  by (simp add: alice_store_def AddUser_def NewUserPass_def Let_def)

lemma wrote_NewRecorder: "wrote NewRecorder = None" and written_NewRecorder: "written NewRecorder = []"
  by (simp_all add: NewRecorder_def)

subsection \<open>The paths of the handler\<close>

lemma ReturnFailure_store: "fst (ReturnFailure lib u w s m) = u"
  by (simp add: ReturnFailure_def Let_def split: sum.split)

lemma ServeHTTP_store: "fst (ServeHTTP lib u w r) = u"
  by (simp add: ServeHTTP_def Let_def ReturnFailure_store
      split: prod.split option.split sum.split)


lemma ReturnFailure_Content_Type:
  assumes "wrote w = None"
  shows "\<exists>code h. wrote (snd (ReturnFailure lib u w s m)) = Some (code, h) \<and>
           h ''Content-Type'' = HeaderMap w ''Content-Type''"
  using assms
  by (simp add: ReturnFailure_def Let_def SetHeader_def WriteHeader_def Write_def Header_Set_def
      split: sum.split)

lemma golib_failure:
  assumes "wrote w = None"
  shows "status_sent (snd (ReturnFailure golib u (SetHeader w k v) s m)) = Some s \<and>
         written (snd (ReturnFailure golib u (SetHeader w k v) s m)) =
           written w @ encode_ErrorWrapper \<lparr>Error = \<lparr>Message = m, Code = s, Title = StatusText s\<rparr>\<rparr>"
  using assms
  by (simp add: ReturnFailure_def golib_sel Let_def SetHeader_def WriteHeader_def Write_def
      status_sent_def)

lemma ServeHTTP_header:
  assumes "Header_Get (Header r) ''Content-Type'' \<noteq> ''application/json''"
  shows "ServeHTTP lib u w r =
    ReturnFailure lib u (SetHeader w ''Content-Type'' ''application/json'') 400 notJSON"
  using assms by (simp add: ServeHTTP_def Let_def StatusBadRequest_def)

lemma ServeHTTP_read_error:
  assumes "Header_Get (Header r) ''Content-Type'' = ''application/json''"
    and "ioutil_ReadAll (Body r) = (content, Some err)"
  shows "ServeHTTP lib u w r =
    (u, WriteHeader (SetHeader w ''Content-Type'' ''application/json'') 400)"
  using assms by (simp add: ServeHTTP_def Let_def StatusBadRequest_def)

lemma ServeHTTP_body:
  assumes "Header_Get (Header r) ''Content-Type'' = ''application/json''"
    and "ioutil_ReadAll (Body r) = (content, None)"
    and "json_Unmarshal_UserPassRequest lib content zero_UserPassRequest = Inl err"
  shows "ServeHTTP lib u w r =
    ReturnFailure lib u (SetHeader w ''Content-Type'' ''application/json'') 400 notJSON"
  using assms by (simp add: ServeHTTP_def Let_def StatusBadRequest_def)

lemma ServeHTTP_unknown:
  assumes "Header_Get (Header r) ''Content-Type'' = ''application/json''"
    and "ioutil_ReadAll (Body r) = (content, None)"
    and "json_Unmarshal_UserPassRequest lib content zero_UserPassRequest = Inr req"
    and "users u (Username (PasswordCredentials (Auth req))) = None"
  shows "ServeHTTP lib u w r =
    ReturnFailure lib u (SetHeader w ''Content-Type'' ''application/json'') 401 notAuthorized"
  using assms by (simp add: ServeHTTP_def Let_def StatusUnauthorized_def)

lemma ServeHTTP_secret:
  assumes "Header_Get (Header r) ''Content-Type'' = ''application/json''"
    and "ioutil_ReadAll (Body r) = (content, None)"
    and "json_Unmarshal_UserPassRequest lib content zero_UserPassRequest = Inr req"
    and "users u (Username (PasswordCredentials (Auth req))) = Some userInfo"
    and "secret userInfo \<noteq> Password (PasswordCredentials (Auth req))"
  shows "ServeHTTP lib u w r =
    ReturnFailure lib u (SetHeader w ''Content-Type'' ''application/json'') 401 invalidUser"
  using assms by (simp add: ServeHTTP_def Let_def StatusUnauthorized_def)

lemma ServeHTTP_success:
  assumes "Header_Get (Header r) ''Content-Type'' = ''application/json''"
    and "ioutil_ReadAll (Body r) = (content, None)"
    and "json_Unmarshal_UserPassRequest lib content zero_UserPassRequest = Inr req"
    and "users u (Username (PasswordCredentials (Auth req))) = Some userInfo"
    and "secret userInfo = Password (PasswordCredentials (Auth req))"
    and "json_Unmarshal_AccessResponse lib exampleResponse zero_AccessResponse = Inr res"
    and "json_Marshal_AccessResponse lib (set_Token_Id res (token userInfo)) = Inr body"
    and "wrote w = None"
  shows "status_sent (snd (ServeHTTP lib u w r)) = Some 200 \<and>
         written (snd (ServeHTTP lib u w r)) = written w @ body"
  using assms
  by (simp add: ServeHTTP_def Let_def StatusOK_def SetHeader_def WriteHeader_def Write_def
      status_sent_def)

lemma golib_login:
  assumes "Header_Get (Header r) ''Content-Type'' = ''application/json''"
    and "ioutil_ReadAll (Body r) = (content, None)"
    and "Unmarshal decode_UserPassRequest content zero_UserPassRequest = Inr req"
    and "users u (Username (PasswordCredentials (Auth req))) =
           Some \<lparr>secret = Password (PasswordCredentials (Auth req)), token = t\<rparr>"
    and "wrote w = None"
  shows "status_sent (snd (ServeHTTP golib u w r)) = Some 200 \<and>
         written (snd (ServeHTTP golib u w r)) =
           written w @ encode_AccessResponse (set_Token_Id exampleAccess t)"
  using ServeHTTP_success [where lib = golib and res = exampleAccess and r = r and u = u
      and w = w and content = content and req = req
      and userInfo = "\<lparr>secret = Password (PasswordCredentials (Auth req)), token = t\<rparr>"
      and body = "encode_AccessResponse (set_Token_Id exampleAccess t)"] assms
  by (simp add: golib_sel Unmarshal_exampleResponse)

lemma exec_users:
  assumes "list_all (\<lambda>c. \<not> registers user c) cs"
  shows "users (exec lib u cs) user = users u user"
  using assms
proof (induction cs arbitrary: u)
  case Nil
  then show ?case by simp
next
  case (Cons c cs)
  then show ?case
    by (cases c) (auto simp: AddUser_def Let_def ServeHTTP_store)
qed

lemma ReturnFailure_not_200:
  assumes "wrote w = None" and "s \<noteq> 200"
  shows "status_sent (snd (ReturnFailure lib u w s m)) \<noteq> Some 200"
  using assms
  by (simp add: ReturnFailure_def Let_def SetHeader_def WriteHeader_def Write_def status_sent_def
      StatusInternalServerError_def split: sum.split)

subsection \<open>Decoding the body of a successful answer\<close>

text \<open>
  A string of printable ASCII characters other than the quote, the backslash,
  \<^verbatim>\<open><\<close>, \<^verbatim>\<open>>\<close> and \<^verbatim>\<open>&\<close> (such as a hexadecimal token) is encoded as it stands,
  scanned as it stands, and unquoted to itself.
\<close>

lemma appendString_plain: "list_all htmlSafe s \<Longrightarrow> appendString s = s"
  by (induction s) (auto simp: htmlSafe_def)

lemma unquote_plain: "list_all htmlSafe s \<Longrightarrow> unquote s = Some s"
  by (induction s) (auto simp: htmlSafe_def)

lemma scan_plain:
  "list_all htmlSafe s \<Longrightarrow> foldl scan_step (stepInString acc, st) s = (stepInString (acc @ s), st)"
  by (induction s arbitrary: acc) (auto simp: htmlSafe_def)

lemma body_split:
  "encode_AccessResponse (set_Token_Id exampleAccess t) =
     body_before_token @ appendString t @ body_after_token"
  by (simp add: encode_AccessResponse_def encode_Access_def encode_TokenResponse_def
      set_Token_Id_def body_before_token_def body_after_token_def encode_string_def)

lemma scan_before_token:
  "foldl scan_step (stepBeginValue, []) body_before_token =
     (stepInString [],
      [parseObjectValue [(''expires'', JString ''2012-02-15T19:32:21'')] ''id'',
       parseObjectValue
         [(''serviceCatalog'',
           JArray
            [JObject
              [(''name'', JString ''nova''), (''type'', JString ''compute''),
               (''Endpoints'',
                JArray
                 [JObject
                   [(''adminURL'', JString ''https://nova-api.trystack.org:9774/v1.1/1''),
                    (''internalURL'', JString ''https://nova-api.trystack.org:9774/v1.1/1''),
                    (''publicURL'', JString ''https://nova-api.trystack.org:9774/v1.1/1''),
                    (''region'', JString ''RegionOne'')]])],
             JObject
              [(''name'', JString ''glance''), (''type'', JString ''image''),
               (''Endpoints'',
                JArray
                 [JObject
                   [(''adminURL'', JString ''https://GLANCE_API_IS_NOT_DISCLOSED/v1.1/1''),
                    (''internalURL'', JString ''https://GLANCE_API_IS_NOT_DISCLOSED/v1.1/1''),
                    (''publicURL'', JString ''https://GLANCE_API_IS_NOT_DISCLOSED/v1.1/1''),
                    (''region'', JString ''RegionOne'')]])],
             JObject
              [(''name'', JString ''keystone''), (''type'', JString ''identity''),
               (''Endpoints'',
                JArray
                 [JObject
                   [(''adminURL'', JString ''https://nova-api.trystack.org:5443/v2.0''),
                    (''internalURL'', JString ''https://keystone.trystack.org:5000/v2.0''),
                    (''publicURL'', JString ''https://keystone.trystack.org:5000/v2.0''),
                    (''region'', JString ''RegionOne'')]])]])]
         ''token'',
       parseObjectValue [] ''access''])"
  by code_simp

lemma scan_after_token:
  "eof (foldl scan_step
     (stepInString t,
      [parseObjectValue [(''expires'', e)] ''id'',
       parseObjectValue [(''serviceCatalog'', c)] ''token'',
       parseObjectValue [] ''access'']) body_after_token) =
   Some (JObject [(''access'', JObject
     [(''serviceCatalog'', c),
      (''token'', JObject [(''expires'', e), (''id'', JString t),
         (''tenant'', JObject [(''id'', JString ''1''), (''name'', JString ''admin'')])]),
      (''user'', JObject [(''id'', JString ''14''), (''name'', JString ''annegentle''),
         (''roles'', JArray [JObject [(''id'', JString ''2''), (''name'', JString ''Member''),
            (''tenantId'', JString ''1'')]])])])])"
  by code_simp

lemma decode_tree:
  assumes "list_all htmlSafe t"
  shows "decode_AccessResponse
     (JObject [(''access'', JObject
       [(''serviceCatalog'',
           JArray
            [JObject
              [(''name'', JString ''nova''), (''type'', JString ''compute''),
               (''Endpoints'',
                JArray
                 [JObject
                   [(''adminURL'', JString ''https://nova-api.trystack.org:9774/v1.1/1''),
                    (''internalURL'', JString ''https://nova-api.trystack.org:9774/v1.1/1''),
                    (''publicURL'', JString ''https://nova-api.trystack.org:9774/v1.1/1''),
                    (''region'', JString ''RegionOne'')]])],
             JObject
              [(''name'', JString ''glance''), (''type'', JString ''image''),
               (''Endpoints'',
                JArray
                 [JObject
                   [(''adminURL'', JString ''https://GLANCE_API_IS_NOT_DISCLOSED/v1.1/1''),
                    (''internalURL'', JString ''https://GLANCE_API_IS_NOT_DISCLOSED/v1.1/1''),
                    (''publicURL'', JString ''https://GLANCE_API_IS_NOT_DISCLOSED/v1.1/1''),
                    (''region'', JString ''RegionOne'')]])],
             JObject
              [(''name'', JString ''keystone''), (''type'', JString ''identity''),
               (''Endpoints'',
                JArray
                 [JObject
                   [(''adminURL'', JString ''https://nova-api.trystack.org:5443/v2.0''),
                    (''internalURL'', JString ''https://keystone.trystack.org:5000/v2.0''),
                    (''publicURL'', JString ''https://keystone.trystack.org:5000/v2.0''),
                    (''region'', JString ''RegionOne'')]])]]),
        (''token'', JObject [(''expires'', JString ''2012-02-15T19:32:21''), (''id'', JString t),
           (''tenant'', JObject [(''id'', JString ''1''), (''name'', JString ''admin'')])]),
        (''user'', JObject [(''id'', JString ''14''), (''name'', JString ''annegentle''),
           (''roles'', JArray [JObject [(''id'', JString ''2''), (''name'', JString ''Member''),
              (''tenantId'', JString ''1'')]])])])])
     zero_AccessResponse = Inr (set_Token_Id exampleAccess t)"
  using unquote_plain [OF assms]
  by (simp add: decode_AccessResponse_def decode_Access_def decode_TokenResponse_def
      decode_Tenant_def decode_UserResponse_def decode_RoleResponse_def decode_Service_def
      decode_Endpoint_def decode_struct_def decode_slice_def field_def lookup_field_def
      zero_AccessResponse_def zero_Service_def zero_Endpoint_def zero_RoleResponse_def
      set_Token_Id_def exampleAccess_def escape_byte_def utf8_size_def)

lemma Unmarshal_body:
  assumes "list_all htmlSafe t"
  shows "Unmarshal decode_AccessResponse (encode_AccessResponse (set_Token_Id exampleAccess t))
           zero_AccessResponse = Inr (set_Token_Id exampleAccess t)"
  by (simp add: Unmarshal_def scan_def body_split appendString_plain [OF assms]
      scan_before_token scan_plain [OF assms] scan_after_token decode_tree [OF assms])

subsection \<open>The claims\<close>


text \<open>
  C2, as stated: a body that is JSON but does not have the shape of a login request is
  answered with 400 and the content-type message. The body \<^verbatim>\<open>{}\<close> is a counterexample:
  it decodes without error to a request with empty fields, and with no user of the empty
  name the answer is 401 with the message for an unknown user.
\<close>

theorem empty_object_not_400:
  "status_sent (snd (ServeHTTP golib NewUserPass NewRecorder (json_request ''{}''))) = Some 401 \<and>
   written (snd (ServeHTTP golib NewUserPass NewRecorder (json_request ''{}''))) =
     encode_ErrorWrapper \<lparr>Error = \<lparr>Message = notAuthorized, Code = 401, Title = ''Unauthorized''\<rparr>\<rparr>"
proof -
  have "users NewUserPass (Username (PasswordCredentials (Auth zero_UserPassRequest))) = None"
    by (simp add: NewUserPass_def)
  then have "ServeHTTP golib NewUserPass NewRecorder (json_request ''{}'') =
      ReturnFailure golib NewUserPass (SetHeader NewRecorder ''Content-Type'' ''application/json'')
        401 notAuthorized"
    by (intro ServeHTTP_unknown [where content = "''{}''" and req = zero_UserPassRequest])
      (simp_all add: json_request_sel golib_sel Unmarshal_empty_object)
  then show ?thesis
    using golib_failure [OF wrote_NewRecorder, of NewUserPass "''Content-Type''"
        "''application/json''" 401 notAuthorized]
    by (simp add: StatusText_values written_NewRecorder)
qed

text \<open>
  C2, amended: when the content type is \<^verbatim>\<open>application/json\<close>, the body is read, and
  \<^verbatim>\<open>json.Unmarshal\<close> returns an error for it (the body is not JSON, or a JSON value in
  it has a kind that the field it is stored into cannot hold), the answer is 400 with
  the content-type message.
\<close>

theorem undecodable_body_400:
  assumes "Header_Get (Header r) ''Content-Type'' = ''application/json''"
    and "ioutil_ReadAll (Body r) = (content, None)"
    and "scan content = None \<or>
         Unmarshal decode_UserPassRequest content zero_UserPassRequest = Inl err"
    and "wrote w = None"
  shows "status_sent (snd (ServeHTTP golib u w r)) = Some 400 \<and>
         written (snd (ServeHTTP golib u w r)) =
           written w @
           encode_ErrorWrapper \<lparr>Error = \<lparr>Message = notJSON, Code = 400, Title = ''Bad Request''\<rparr>\<rparr>"
proof -
  from assms(3) obtain err' where
    "Unmarshal decode_UserPassRequest content zero_UserPassRequest = Inl err'"
    by (auto simp: Unmarshal_def)
  then have "ServeHTTP golib u w r =
      ReturnFailure golib u (SetHeader w ''Content-Type'' ''application/json'') 400 notJSON"
    using assms(1,2) by (simp add: ServeHTTP_body [where content = content] golib_sel)
  then show ?thesis
    using golib_failure [OF assms(4), of u "''Content-Type''" "''application/json''" 400 notJSON]
    by (simp add: StatusText_values)
qed

theorem undecodable_body_400_witness:
  \<open>Header_Get (Header (json_request ''username=alice'')) ''Content-Type'' = ''application/json'' \<and>
   ioutil_ReadAll (Body (json_request ''username=alice'')) = (''username=alice'', None) \<and>
   scan ''username=alice'' = None \<and>
   wrote NewRecorder = None \<and>
   status_sent (snd (ServeHTTP golib alice_store NewRecorder (json_request ''username=alice''))) =
     Some 400 \<and>
   written (snd (ServeHTTP golib alice_store NewRecorder (json_request ''username=alice''))) =
     encode_ErrorWrapper \<lparr>Error = \<lparr>Message = notJSON, Code = 400, Title = ''Bad Request''\<rparr>\<rparr> \<and>
   written (snd (ServeHTTP golib alice_store NewRecorder (json_request ''username=alice''))) =
     ''{"error":{"message":"Expecting to find application/json in Content-Type header.'' @
     '' The server could not comply with the request since it is either malformed'' @
     '' or otherwise incorrect. The client is assumed to be in error.'' @
     ''","code":400,"title":"Bad Request"}}''\<close>
proof -
  have s: "scan ''username=alice'' = None"
    by code_simp
  show ?thesis
    using undecodable_body_400 [of "json_request ''username=alice''" "''username=alice''" SyntaxError
        NewRecorder alice_store] s
    by (simp add: json_request_sel wrote_NewRecorder written_NewRecorder envelopes)
qed

text \<open>
  C3. After \<^verbatim>\<open>AddUser\<close> has registered a user with a secret and returned the token
  \<open>t\<close>, a request with the JSON content type whose body decodes to that user name and
  secret is answered with 200 and the encoding of the fixture's document with
  \<^verbatim>\<open>access.token.id\<close> set to \<open>t\<close>. When \<open>t\<close> is made of printable ASCII characters
  other than the quote, the backslash, \<^verbatim>\<open><\<close>, \<^verbatim>\<open>>\<close> and \<^verbatim>\<open>&\<close>, as a hexadecimal
  token is, decoding the body written gives back a document whose token id is \<open>t\<close>.
\<close>

theorem login_after_AddUser:
  assumes "AddUser tok u0 user secret' = (t, u)"
    and "Header_Get (Header r) ''Content-Type'' = ''application/json''"
    and "ioutil_ReadAll (Body r) = (content, None)"
    and "Unmarshal decode_UserPassRequest content zero_UserPassRequest = Inr req"
    and "Username (PasswordCredentials (Auth req)) = user"
    and "Password (PasswordCredentials (Auth req)) = secret'"
    and "wrote w = None"
  shows "status_sent (snd (ServeHTTP golib u w r)) = Some 200 \<and>
         written (snd (ServeHTTP golib u w r)) =
           written w @ encode_AccessResponse (set_Token_Id exampleAccess t) \<and>
         (list_all htmlSafe t \<longrightarrow>
            (\<exists>doc. Unmarshal decode_AccessResponse
                     (encode_AccessResponse (set_Token_Id exampleAccess t))
                     zero_AccessResponse = Inr doc \<and>
                   TokenResponse.Id' (Token (Access doc)) = t))"
proof -
  have "users u user = Some \<lparr>secret = secret', token = t\<rparr>"
    using assms(1) by (auto simp: AddUser_def Let_def)
  then have "status_sent (snd (ServeHTTP golib u w r)) = Some 200 \<and>
      written (snd (ServeHTTP golib u w r)) =
        written w @ encode_AccessResponse (set_Token_Id exampleAccess t)"
    using golib_login [OF assms(2,3,4) _ assms(7), of u t] assms(5,6) by simp
  moreover have "TokenResponse.Id' (Token (Access (set_Token_Id exampleAccess t))) = t"
    by (simp add: set_Token_Id_def)
  ultimately show ?thesis
    using Unmarshal_body [of t] by simp
qed

theorem login_after_AddUser_witness:
  "AddUser ''T'' NewUserPass ''alice'' ''wonderland'' = (''T'', alice_store) \<and>
   Header_Get (Header (json_request (alice_login ''wonderland''))) ''Content-Type'' =
     ''application/json'' \<and>
   ioutil_ReadAll (Body (json_request (alice_login ''wonderland''))) =
     (alice_login ''wonderland'', None) \<and>
   Unmarshal decode_UserPassRequest (alice_login ''wonderland'') zero_UserPassRequest =
     Inr \<lparr>Auth = \<lparr>PasswordCredentials = \<lparr>Username = ''alice'', Password = ''wonderland''\<rparr>,
                  TenantName = []\<rparr>\<rparr> \<and>
   wrote NewRecorder = None \<and>
   status_sent (snd (ServeHTTP golib alice_store NewRecorder
     (json_request (alice_login ''wonderland'')))) = Some 200 \<and>
   written (snd (ServeHTTP golib alice_store NewRecorder
     (json_request (alice_login ''wonderland'')))) =
     encode_AccessResponse (set_Token_Id exampleAccess ''T'') \<and>
   list_all htmlSafe ''T'' \<and>
   (\<exists>doc. Unmarshal decode_AccessResponse
            (encode_AccessResponse (set_Token_Id exampleAccess ''T''))
            zero_AccessResponse = Inr doc \<and>
          TokenResponse.Id' (Token (Access doc)) = ''T'')"
proof -
  have a: "AddUser ''T'' NewUserPass ''alice'' ''wonderland'' = (''T'', alice_store)"
    by (simp add: alice_store_def AddUser_def Let_def)
  have p: "list_all htmlSafe ''T''"
    by (simp add: htmlSafe_def)
  show ?thesis
    using login_after_AddUser [OF a json_request_sel(1) json_request_sel(2) Unmarshal_alice _ _
        wrote_NewRecorder, of "''wonderland''"] a p
    by (simp add: json_request_sel Unmarshal_alice wrote_NewRecorder written_NewRecorder)
qed

text \<open>
  C4. \<^verbatim>\<open>ServeHTTP\<close> leaves the store as it is. After \<^verbatim>\<open>AddUser\<close> has registered a
  user and returned the token \<open>t\<close>, and after any run of further calls none of which
  registers that user again, the store still holds \<open>t\<close> for the user, and a login with
  the user's name and secret is answered with 200 and the document whose token id is \<open>t\<close>.
\<close>

theorem token_kept_until_reregistration:
  assumes "AddUser tok u0 user secret' = (t, u1)"
    and "list_all (\<lambda>c. \<not> registers user c) cs"
    and "Header_Get (Header r) ''Content-Type'' = ''application/json''"
    and "ioutil_ReadAll (Body r) = (content, None)"
    and "Unmarshal decode_UserPassRequest content zero_UserPassRequest = Inr req"
    and "Username (PasswordCredentials (Auth req)) = user"
    and "Password (PasswordCredentials (Auth req)) = secret'"
    and "wrote w = None"
  shows "users (fst (ServeHTTP lib' u' w' r')) = users u' \<and>
         users (exec golib u1 cs) user = Some \<lparr>secret = secret', token = t\<rparr> \<and>
         status_sent (snd (ServeHTTP golib (exec golib u1 cs) w r)) = Some 200 \<and>
         written (snd (ServeHTTP golib (exec golib u1 cs) w r)) =
           written w @ encode_AccessResponse (set_Token_Id exampleAccess t)"
proof -
  have "users u1 user = Some \<lparr>secret = secret', token = t\<rparr>"
    using assms(1) by (auto simp: AddUser_def Let_def)
  then have kept: "users (exec golib u1 cs) user = Some \<lparr>secret = secret', token = t\<rparr>"
    using exec_users [OF assms(2), of golib u1] by simp
  then show ?thesis
    using golib_login [OF assms(3,4,5) _ assms(8), of "exec golib u1 cs" t] assms(6,7)
    by (simp add: ServeHTTP_store)
qed

theorem token_kept_until_reregistration_witness:
  "AddUser ''T'' NewUserPass ''alice'' ''wonderland'' = (''T'', alice_store) \<and>
   list_all (\<lambda>c. \<not> registers ''alice'' c)
     [Call_ServeHTTP NewRecorder (json_request (alice_login ''wonderland'')),
      Call_AddUser ''B'' ''bob'' ''builder'',
      Call_ServeHTTP NewRecorder (json_request (alice_login ''wrong''))] \<and>
   Unmarshal decode_UserPassRequest (alice_login ''wonderland'') zero_UserPassRequest =
     Inr \<lparr>Auth = \<lparr>PasswordCredentials = \<lparr>Username = ''alice'', Password = ''wonderland''\<rparr>,
                  TenantName = []\<rparr>\<rparr> \<and>
   users (exec golib alice_store
     [Call_ServeHTTP NewRecorder (json_request (alice_login ''wonderland'')),
      Call_AddUser ''B'' ''bob'' ''builder'',
      Call_ServeHTTP NewRecorder (json_request (alice_login ''wrong''))]) ''alice'' =
     Some \<lparr>secret = ''wonderland'', token = ''T''\<rparr> \<and>
   status_sent (snd (ServeHTTP golib (exec golib alice_store
     [Call_ServeHTTP NewRecorder (json_request (alice_login ''wonderland'')),
      Call_AddUser ''B'' ''bob'' ''builder'',
      Call_ServeHTTP NewRecorder (json_request (alice_login ''wrong''))])
     NewRecorder (json_request (alice_login ''wonderland'')))) = Some 200 \<and>
   written (snd (ServeHTTP golib (exec golib alice_store
     [Call_ServeHTTP NewRecorder (json_request (alice_login ''wonderland'')),
      Call_AddUser ''B'' ''bob'' ''builder'',
      Call_ServeHTTP NewRecorder (json_request (alice_login ''wrong''))])
     NewRecorder (json_request (alice_login ''wonderland'')))) =
     encode_AccessResponse (set_Token_Id exampleAccess ''T'')"
proof -
  have a: "AddUser ''T'' NewUserPass ''alice'' ''wonderland'' = (''T'', alice_store)"
    by (simp add: alice_store_def AddUser_def Let_def)
  have c: "list_all (\<lambda>c. \<not> registers ''alice'' c)
     [Call_ServeHTTP NewRecorder (json_request (alice_login ''wonderland'')),
      Call_AddUser ''B'' ''bob'' ''builder'',
      Call_ServeHTTP NewRecorder (json_request (alice_login ''wrong''))]"
    by simp
  show ?thesis
    using token_kept_until_reregistration [OF a c json_request_sel(1) json_request_sel(2)
        Unmarshal_alice _ _ wrote_NewRecorder, of "''wonderland''"] a c
    by (simp add: Unmarshal_alice written_NewRecorder del: exec.simps)
qed

text \<open>
  C5. A request with the JSON content type whose body decodes to a user name that the
  store does not hold is answered with 401 and the envelope whose message is
  \<open>notAuthorized\<close>, "The request you have made requires authentication.".
\<close>

theorem unknown_user_401:
  assumes "Header_Get (Header r) ''Content-Type'' = ''application/json''"
    and "ioutil_ReadAll (Body r) = (content, None)"
    and "Unmarshal decode_UserPassRequest content zero_UserPassRequest = Inr req"
    and "users u (Username (PasswordCredentials (Auth req))) = None"
    and "wrote w = None"
  shows "status_sent (snd (ServeHTTP golib u w r)) = Some 401 \<and>
         written (snd (ServeHTTP golib u w r)) =
           written w @
           encode_ErrorWrapper
             \<lparr>Error = \<lparr>Message = ''The request you have made requires authentication.'',
                        Code = 401, Title = ''Unauthorized''\<rparr>\<rparr>"
proof -
  have "ServeHTTP golib u w r =
      ReturnFailure golib u (SetHeader w ''Content-Type'' ''application/json'') 401 notAuthorized"
    using assms(1,2,3,4) by (intro ServeHTTP_unknown) (simp_all add: golib_sel)
  then show ?thesis
    using golib_failure [OF assms(5), of u "''Content-Type''" "''application/json''" 401
        notAuthorized]
    by (simp add: StatusText_values notAuthorized_def)
qed

theorem unknown_user_401_witness:
  \<open>Header_Get (Header (json_request (alice_login ''wonderland''))) ''Content-Type'' =
     ''application/json'' \<and>
   ioutil_ReadAll (Body (json_request (alice_login ''wonderland''))) =
     (alice_login ''wonderland'', None) \<and>
   Unmarshal decode_UserPassRequest (alice_login ''wonderland'') zero_UserPassRequest =
     Inr \<lparr>Auth = \<lparr>PasswordCredentials = \<lparr>Username = ''alice'', Password = ''wonderland''\<rparr>,
                  TenantName = []\<rparr>\<rparr> \<and>
   users NewUserPass ''alice'' = None \<and>
   wrote NewRecorder = None \<and>
   status_sent (snd (ServeHTTP golib NewUserPass NewRecorder
     (json_request (alice_login ''wonderland'')))) = Some 401 \<and>
   written (snd (ServeHTTP golib NewUserPass NewRecorder
     (json_request (alice_login ''wonderland'')))) =
     encode_ErrorWrapper
       \<lparr>Error = \<lparr>Message = ''The request you have made requires authentication.'',
                  Code = 401, Title = ''Unauthorized''\<rparr>\<rparr> \<and>
   written (snd (ServeHTTP golib NewUserPass NewRecorder
     (json_request (alice_login ''wonderland'')))) =
     ''{"error":{"message":"The request you have made requires authentication.",'' @
     ''"code":401,"title":"Unauthorized"}}''\<close>
proof -
  have n: "users NewUserPass ''alice'' = None"
    by (simp add: NewUserPass_def)
  show ?thesis
    using unknown_user_401 [OF json_request_sel(1) json_request_sel(2) Unmarshal_alice _
        wrote_NewRecorder, of "''wonderland''" NewUserPass] n
    by (simp add: json_request_sel Unmarshal_alice wrote_NewRecorder written_NewRecorder
        envelopes)
qed

text \<open>
  C6. A request with the JSON content type whose body decodes to a registered user name
  and a password that differs from the stored secret is answered with 401 and the
  envelope whose message is \<open>invalidUser\<close>, "Invalid user / password".
\<close>

theorem wrong_password_401:
  assumes "Header_Get (Header r) ''Content-Type'' = ''application/json''"
    and "ioutil_ReadAll (Body r) = (content, None)"
    and "Unmarshal decode_UserPassRequest content zero_UserPassRequest = Inr req"
    and "users u (Username (PasswordCredentials (Auth req))) = Some userInfo"
    and "secret userInfo \<noteq> Password (PasswordCredentials (Auth req))"
    and "wrote w = None"
  shows "status_sent (snd (ServeHTTP golib u w r)) = Some 401 \<and>
         written (snd (ServeHTTP golib u w r)) =
           written w @
           encode_ErrorWrapper
             \<lparr>Error = \<lparr>Message = ''Invalid user / password'', Code = 401,
                        Title = ''Unauthorized''\<rparr>\<rparr>"
proof -
  have "ServeHTTP golib u w r =
      ReturnFailure golib u (SetHeader w ''Content-Type'' ''application/json'') 401 invalidUser"
    using assms(1,2,3,4,5) by (intro ServeHTTP_secret) (simp_all add: golib_sel)
  then show ?thesis
    using golib_failure [OF assms(6), of u "''Content-Type''" "''application/json''" 401
        invalidUser]
    by (simp add: StatusText_values invalidUser_def)
qed

theorem wrong_password_401_witness:
  \<open>Header_Get (Header (json_request (alice_login ''wrong''))) ''Content-Type'' =
     ''application/json'' \<and>
   ioutil_ReadAll (Body (json_request (alice_login ''wrong''))) = (alice_login ''wrong'', None) \<and>
   Unmarshal decode_UserPassRequest (alice_login ''wrong'') zero_UserPassRequest =
     Inr \<lparr>Auth = \<lparr>PasswordCredentials = \<lparr>Username = ''alice'', Password = ''wrong''\<rparr>,
                  TenantName = []\<rparr>\<rparr> \<and>
   users alice_store ''alice'' = Some \<lparr>secret = ''wonderland'', token = ''T''\<rparr> \<and>
   wrote NewRecorder = None \<and>
   status_sent (snd (ServeHTTP golib alice_store NewRecorder
     (json_request (alice_login ''wrong'')))) = Some 401 \<and>
   written (snd (ServeHTTP golib alice_store NewRecorder
     (json_request (alice_login ''wrong'')))) =
     encode_ErrorWrapper
       \<lparr>Error = \<lparr>Message = ''Invalid user / password'', Code = 401, Title = ''Unauthorized''\<rparr>\<rparr> \<and>
   written (snd (ServeHTTP golib alice_store NewRecorder
     (json_request (alice_login ''wrong'')))) =
     ''{"error":{"message":"Invalid user / password","code":401,"title":"Unauthorized"}}''\<close>
proof -
  have s: "users alice_store ''alice'' = Some \<lparr>secret = ''wonderland'', token = ''T''\<rparr>"
    by (simp add: alice_store_users)
  show ?thesis
    using wrong_password_401 [OF json_request_sel(1) json_request_sel(2) Unmarshal_alice _ _
        wrote_NewRecorder, of "''wrong''" alice_store "\<lparr>secret = ''wonderland'', token = ''T''\<rparr>"] s
    by (simp add: json_request_sel Unmarshal_alice wrote_NewRecorder written_NewRecorder
        envelopes)
qed

text \<open>
  C7. When the handler answers 200, the bytes written are the encoding of a document
  that is the decoded fixture \<open>exampleResponse\<close> in every field but \<^verbatim>\<open>access.token.id\<close>,
  which is the token stored for the user of the request: the service catalog, the user
  with its roles, and the expiry and tenant of the token are those of the fixture.
\<close>

theorem success_document:
  assumes "wrote w = None"
    and "status_sent (snd (ServeHTTP lib u w r)) = Some 200"
  shows "\<exists>content req userInfo res doc body.
           ioutil_ReadAll (Body r) = (content, None) \<and>
           json_Unmarshal_UserPassRequest lib content zero_UserPassRequest = Inr req \<and>
           users u (Username (PasswordCredentials (Auth req))) = Some userInfo \<and>
           json_Unmarshal_AccessResponse lib exampleResponse zero_AccessResponse = Inr res \<and>
           json_Marshal_AccessResponse lib doc = Inr body \<and>
           written (snd (ServeHTTP lib u w r)) = written w @ body \<and>
           TokenResponse.Id' (Token (Access doc)) = token userInfo \<and>
           Expires (Token (Access doc)) = Expires (Token (Access res)) \<and>
           Tenant (Token (Access doc)) = Tenant (Token (Access res)) \<and>
           ServiceCatalog (Access doc) = ServiceCatalog (Access res) \<and>
           User (Access doc) = User (Access res)"
proof -
  let ?w = "SetHeader w ''Content-Type'' ''application/json''"
  have fresh: "wrote ?w = None"
    using assms(1) by (simp add: SetHeader_def)
  have no: "status_sent (snd (ReturnFailure lib u ?w s m)) \<noteq> Some 200"
    if "s = 400 \<or> s = 401 \<or> s = 500" for s m
    using that ReturnFailure_not_200 [OF fresh, of s lib u m] by auto
  have bare: "status_sent (WriteHeader ?w 400) \<noteq> Some 200"
    using fresh by (simp add: WriteHeader_def status_sent_def)
  have h: "Header_Get (Header r) ''Content-Type'' = ''application/json''"
  proof (rule ccontr)
    assume "Header_Get (Header r) ''Content-Type'' \<noteq> ''application/json''"
    then have "ServeHTTP lib u w r = ReturnFailure lib u ?w 400 notJSON"
      by (rule ServeHTTP_header)
    then show False
      using assms(2) no [of 400 notJSON] by simp
  qed
  obtain content err where rd: "ioutil_ReadAll (Body r) = (content, err)"
    by (cases "ioutil_ReadAll (Body r)")
  have e: "err = None"
    using assms(2) bare ServeHTTP_read_error [OF h, of content _ lib u w] rd by (cases err) auto
  obtain req where rq: "json_Unmarshal_UserPassRequest lib content zero_UserPassRequest = Inr req"
    using assms(2) no [of 400 notJSON] ServeHTTP_body [OF h, of content lib _ u w] rd e
    by (cases "json_Unmarshal_UserPassRequest lib content zero_UserPassRequest") auto
  obtain userInfo where
    us: "users u (Username (PasswordCredentials (Auth req))) = Some userInfo"
    using assms(2) no [of 401 notAuthorized] ServeHTTP_unknown [OF h, of content lib req u w] rd e rq
    by (cases "users u (Username (PasswordCredentials (Auth req)))") auto
  have sc: "secret userInfo = Password (PasswordCredentials (Auth req))"
  proof (rule ccontr)
    assume "secret userInfo \<noteq> Password (PasswordCredentials (Auth req))"
    then have "ServeHTTP lib u w r = ReturnFailure lib u ?w 401 invalidUser"
      using h rd e rq us by (intro ServeHTTP_secret [where content = content]) simp_all
    then show False
      using assms(2) no [of 401 invalidUser] by simp
  qed
  have step: "ServeHTTP lib u w r =
      (case json_Unmarshal_AccessResponse lib exampleResponse zero_AccessResponse of
         Inl err \<Rightarrow> ReturnFailure lib u ?w 500 err
       | Inr res \<Rightarrow>
           (case json_Marshal_AccessResponse lib (set_Token_Id res (token userInfo)) of
              Inl err \<Rightarrow> ReturnFailure lib u ?w 500 err
            | Inr body \<Rightarrow> (u, Write (WriteHeader ?w 200) body)))"
    using h rd e rq us sc
    by (simp add: ServeHTTP_def Let_def StatusInternalServerError_def StatusOK_def
        split: sum.split)
  obtain res where
    rs: "json_Unmarshal_AccessResponse lib exampleResponse zero_AccessResponse = Inr res"
    using assms(2) no [of 500] step
    by (cases "json_Unmarshal_AccessResponse lib exampleResponse zero_AccessResponse") auto
  obtain body where
    bd: "json_Marshal_AccessResponse lib (set_Token_Id res (token userInfo)) = Inr body"
    using assms(2) no [of 500] step rs
    by (cases "json_Marshal_AccessResponse lib (set_Token_Id res (token userInfo))") auto
  have wr: "written (snd (ServeHTTP lib u w r)) = written w @ body"
    using ServeHTTP_success [OF h _ rq us sc rs bd assms(1)] rd e by simp
  show ?thesis
    using rd e rq us rs bd wr
    by (intro exI [of _ content] exI [of _ req] exI [of _ userInfo] exI [of _ res]
        exI [of _ "set_Token_Id res (token userInfo)"] exI [of _ body])
      (simp add: set_Token_Id_def)
qed

theorem success_document_witness:
  "wrote NewRecorder = None \<and>
   status_sent (snd (ServeHTTP golib alice_store NewRecorder
     (json_request (alice_login ''wonderland'')))) = Some 200 \<and>
   (\<exists>content req userInfo res doc body.
      ioutil_ReadAll (Body (json_request (alice_login ''wonderland''))) = (content, None) \<and>
      json_Unmarshal_UserPassRequest golib content zero_UserPassRequest = Inr req \<and>
      users alice_store (Username (PasswordCredentials (Auth req))) = Some userInfo \<and>
      json_Unmarshal_AccessResponse golib exampleResponse zero_AccessResponse = Inr res \<and>
      json_Marshal_AccessResponse golib doc = Inr body \<and>
      written (snd (ServeHTTP golib alice_store NewRecorder
        (json_request (alice_login ''wonderland'')))) = written NewRecorder @ body \<and>
      TokenResponse.Id' (Token (Access doc)) = token userInfo \<and>
      Expires (Token (Access doc)) = Expires (Token (Access res)) \<and>
      Tenant (Token (Access doc)) = Tenant (Token (Access res)) \<and>
      ServiceCatalog (Access doc) = ServiceCatalog (Access res) \<and>
      User (Access doc) = User (Access res))"
proof -
  have ok: "status_sent (snd (ServeHTTP golib alice_store NewRecorder
      (json_request (alice_login ''wonderland'')))) = Some 200"
    using golib_login [OF json_request_sel(1) json_request_sel(2) Unmarshal_alice _
        wrote_NewRecorder, of "''wonderland''" alice_store "''T''"]
    by (simp add: alice_store_users)
  show ?thesis
    using success_document [OF wrote_NewRecorder ok] ok wrote_NewRecorder by blast
qed



text \<open>
  C10. Whatever the request, the store and the library, on a writer that has sent
  nothing yet \<^verbatim>\<open>ServeHTTP\<close> sends a status, and the headers sent with it carry
  \<^verbatim>\<open>Content-Type: application/json\<close>; this includes the bare 400 after a failure to
  read the body.
\<close>

theorem response_Content_Type:
  assumes "wrote w = None"
  shows "status_sent (snd (ServeHTTP lib u w r)) \<noteq> None \<and>
         Header_Get (header_sent (snd (ServeHTTP lib u w r))) ''Content-Type'' =
           ''application/json''"
proof -
  let ?w = "SetHeader w ''Content-Type'' ''application/json''"
  have fresh: "wrote ?w = None"
    and ct: "HeaderMap ?w ''Content-Type'' = Some [''application/json'']"
    using assms by (simp_all add: SetHeader_def Header_Set_def)
  have fail: "status_sent (snd (ReturnFailure lib u ?w s m)) \<noteq> None \<and>
      Header_Get (header_sent (snd (ReturnFailure lib u ?w s m))) ''Content-Type'' =
        ''application/json''" for s m
    using ReturnFailure_Content_Type [OF fresh, of lib u s m] ct
    by (auto simp: status_sent_def header_sent_def Header_Get_def)
  have bare: "status_sent (WriteHeader ?w c) \<noteq> None \<and>
      Header_Get (header_sent (WriteHeader ?w c)) ''Content-Type'' = ''application/json''" for c
    using fresh ct by (simp add: status_sent_def header_sent_def Header_Get_def WriteHeader_def)
  have ok: "status_sent (Write (WriteHeader ?w c) b) \<noteq> None \<and>
      Header_Get (header_sent (Write (WriteHeader ?w c) b)) ''Content-Type'' =
        ''application/json''" for c b
    using fresh ct
    by (simp add: status_sent_def header_sent_def Header_Get_def WriteHeader_def Write_def)
  show ?thesis
    unfolding ServeHTTP_def Let_def
    using fail bare ok
    by (auto split: prod.split option.split sum.split simp del: not_None_eq)
qed

theorem response_Content_Type_witness:
  "wrote NewRecorder = None \<and>
   status_sent (snd (ServeHTTP golib alice_store NewRecorder
     \<lparr>Header = [''Content-Type'' \<mapsto> [''application/json'']],
      Body = Reader ''{'' (Some ''unexpected EOF'')\<rparr>)) = Some 400 \<and>
   written (snd (ServeHTTP golib alice_store NewRecorder
     \<lparr>Header = [''Content-Type'' \<mapsto> [''application/json'']],
      Body = Reader ''{'' (Some ''unexpected EOF'')\<rparr>)) = [] \<and>
   Header_Get (header_sent (snd (ServeHTTP golib alice_store NewRecorder
     \<lparr>Header = [''Content-Type'' \<mapsto> [''application/json'']],
      Body = Reader ''{'' (Some ''unexpected EOF'')\<rparr>))) ''Content-Type'' = ''application/json''"
proof -
  have rd: "ServeHTTP golib alice_store NewRecorder
      \<lparr>Header = [''Content-Type'' \<mapsto> [''application/json'']],
       Body = Reader ''{'' (Some ''unexpected EOF'')\<rparr> =
      (alice_store, WriteHeader (SetHeader NewRecorder ''Content-Type'' ''application/json'') 400)"
    by (rule ServeHTTP_read_error [where content = "''{''" and err = "''unexpected EOF''"])
      (simp_all add: Header_Get_def)
  show ?thesis
    using response_Content_Type [OF wrote_NewRecorder, of golib alice_store
        "\<lparr>Header = [''Content-Type'' \<mapsto> [''application/json'']],
          Body = Reader ''{'' (Some ''unexpected EOF'')\<rparr>"]
    unfolding rd
    by (simp add: WriteHeader_def SetHeader_def NewRecorder_def status_sent_def)
qed

end
